theory Spec2Isabelle
  imports Main "HOL-Library.Multiset"
begin

section \<open>Strings\<close>

text \<open>
  JavaScript strings are modelled as \<open>string\<close>. The helpers below are the string methods
  the two scripts call: \<open>s.startsWith(p)\<close>, \<open>s.includes(sub)\<close>, \<open>s.split(c)\<close> for a
  one-character separator, \<open>xs.join(sep)\<close> and \<open>s.trim()\<close>. Texts are taken to be ASCII:
  \<open>trim\<close> here removes the ASCII white-space characters only, where the method also
  removes U+00A0, U+FEFF and the other Unicode white space.
\<close>

definition startsWith :: "string \<Rightarrow> string \<Rightarrow> bool" where
  "startsWith s p = (take (length p) s = p)"

fun includes_str :: "string \<Rightarrow> string \<Rightarrow> bool" where
  "includes_str [] sub = (sub = [])"
| "includes_str (c # s) sub = (startsWith (c # s) sub \<or> includes_str s sub)"

text \<open>\<open>s.split(c)\<close> always returns at least one piece; \<open>''''.split(c)\<close> is \<open>['''']\<close>.\<close>

fun split_on :: "char \<Rightarrow> string \<Rightarrow> string list" where
  "split_on c [] = [[]]"
| "split_on c (x # xs) =
     (if x = c then [] # split_on c xs
      else (case split_on c xs of
              [] \<Rightarrow> [[x]]
            | s # ss \<Rightarrow> (x # s) # ss))"

fun join :: "string \<Rightarrow> string list \<Rightarrow> string" where
  "join sep [] = []"
| "join sep [x] = x"
| "join sep (x # y # ys) = x @ sep @ join sep (y # ys)"

definition is_space :: "char \<Rightarrow> bool" where
  "is_space c = (c = CHR '' '' \<or> c = CHR 0x09 \<or> c = CHR 0x0A \<or> c = CHR 0x0B
                 \<or> c = CHR 0x0C \<or> c = CHR 0x0D)"

definition trim :: "string \<Rightarrow> string" where
  "trim s = rev (dropWhile is_space (rev (dropWhile is_space s)))"

section \<open>The document object model\<close>

text \<open>
  \<open>DOMParser.parseFromString(text, 'text/xml')\<close> belongs to the browser. Its result is
  modelled as the tree of the document element: an element has a tag name, attributes and
  child nodes; character data is a \<open>Text\<close> node. The parser itself is a parameter
  \<open>parser :: string \<Rightarrow> node\<close> of every function that calls it. As in the browser, a text
  that is not well-formed XML still yields a document: one that contains a
  \<open>parsererror\<close> element.
\<close>

datatype node =
  Element (tag: string) (attrs: "(string \<times> string) list") (children: "node list")
| Text (chars: string)

fun textContent :: "node \<Rightarrow> string" where
  "textContent (Text s) = s"
| "textContent (Element t a cs) = concat (map textContent cs)"

text \<open>The element itself followed by the elements below it, in document order.\<close>

fun elements :: "node \<Rightarrow> node list" where
  "elements (Text s) = []"
| "elements (Element t a cs) = Element t a cs # concat (map elements cs)"

text \<open>The elements strictly below a node: what a query on an element searches.\<close>

definition descendants :: "node \<Rightarrow> node list" where
  "descendants n = (case n of Text s \<Rightarrow> [] | Element t a cs \<Rightarrow> concat (map elements cs))"

text \<open>
  \<open>document.querySelectorAll(t)\<close> and \<open>document.getElementsByTagName(t)\<close> for a tag
  name \<open>t\<close>: the search covers the document element too. Element names are taken to
  be written without a prefix, as the search API writes them; on a prefixed name the
  first method compares the local name and the second the qualified name.
\<close>

definition doc_querySelectorAll :: "string \<Rightarrow> node \<Rightarrow> node list" where
  "doc_querySelectorAll t doc = filter (\<lambda>e. tag e = t) (elements doc)"

text \<open>\<open>element.querySelectorAll(t)\<close> and \<open>element.getElementsByTagName(t)\<close>.\<close>

definition querySelectorAll :: "string \<Rightarrow> node \<Rightarrow> node list" where
  "querySelectorAll t e = filter (\<lambda>d. tag d = t) (descendants e)"

text \<open>\<open>element.querySelector(t)\<close> and \<open>element.getElementsByTagName(t)[0]\<close>.\<close>

definition querySelector :: "string \<Rightarrow> node \<Rightarrow> node option" where
  "querySelector t e = (case querySelectorAll t e of [] \<Rightarrow> None | d # ds \<Rightarrow> Some d)"

text \<open>\<open>element.getAttribute(a)\<close>: \<open>None\<close> is JavaScript's \<open>null\<close>.\<close>

definition getAttribute :: "string \<Rightarrow> node \<Rightarrow> string option" where
  "getAttribute a e = map_of (attrs e) a"

text \<open>\<open>entry.querySelector('link[title="pdf"]')\<close>.\<close>

definition querySelector_link_pdf :: "node \<Rightarrow> node option" where
  "querySelector_link_pdf e =
     (case filter (\<lambda>d. getAttribute ''title'' d = Some ''pdf'') (querySelectorAll ''link'' e) of
        [] \<Rightarrow> None
      | d # ds \<Rightarrow> Some d)"

section \<open>Errors\<close>

text \<open>
  The exceptions the scripts can raise: the \<open>TypeError\<close> of a method call on \<open>null\<close> or
  \<open>undefined\<close>, the \<open>RangeError\<close> of \<open>toISOString\<close> on an invalid date, and
  \<open>new Error(message)\<close>.
\<close>

datatype js_error = TypeError | RangeError | Error string

section \<open>The list page: records and the response normalizer\<close>

record author =
  name :: string
  affiliation :: string

text \<open>The object pushed by \<open>parseArxivResponse\<close>; \<open>paper_id\<close> is its field \<open>id\<close>.\<close>

record paper =
  paper_id :: string
  title :: string
  published :: string
  updated :: string
  summary :: string
  categories :: "string list"
  authors :: "author list"
  pdfLink :: string

text \<open>\<open>entry.querySelector(t)?.textContent || ''''\<close>\<close>

definition field_text :: "string \<Rightarrow> node \<Rightarrow> string" where
  "field_text t entry = (case querySelector t entry of None \<Rightarrow> [] | Some e \<Rightarrow> textContent e)"

text \<open>\<open>entry.querySelector('id')?.textContent.split('/').pop() || ''''\<close>\<close>

definition entry_id :: "node \<Rightarrow> string" where
  "entry_id entry =
     (case querySelector ''id'' entry of
        None \<Rightarrow> []
      | Some e \<Rightarrow> last (split_on CHR ''/'' (textContent e)))"

text \<open>
  \<open>Array.from(entry.querySelectorAll('category')).map(cat => cat.getAttribute('term'))
  .filter(term => term.startsWith('cs.'))\<close>: the map runs to its end first, then the
  filter calls \<open>startsWith\<close> on every term in order; on a \<open>null\<close> term that call raises
  a TypeError.
\<close>

fun filter_terms :: "string option list \<Rightarrow> js_error + string list" where
  "filter_terms [] = Inr []"
| "filter_terms (None # ts) = Inl TypeError"
| "filter_terms (Some t # ts) =
     (case filter_terms ts of
        Inl e \<Rightarrow> Inl e
      | Inr r \<Rightarrow> Inr (if startsWith t ''cs.'' then t # r else r))"

definition entry_categories :: "node \<Rightarrow> js_error + string list" where
  "entry_categories entry =
     filter_terms (map (getAttribute ''term'') (querySelectorAll ''category'' entry))"

definition entry_authors :: "node \<Rightarrow> author list" where
  "entry_authors entry =
     map (\<lambda>a. \<lparr>name = field_text ''name'' a, affiliation = []\<rparr>)
         (querySelectorAll ''author'' entry)"

text \<open>\<open>entry.querySelector('link[title="pdf"]')?.getAttribute('href') || ''''\<close>\<close>

definition entry_pdfLink :: "node \<Rightarrow> string" where
  "entry_pdfLink entry =
     (case querySelector_link_pdf entry of
        None \<Rightarrow> []
      | Some l \<Rightarrow> (case getAttribute ''href'' l of None \<Rightarrow> [] | Some h \<Rightarrow> h))"

text \<open>The body of the \<open>entries.forEach\<close> callback: the record pushed for one entry.\<close>

definition parseEntry :: "node \<Rightarrow> js_error + paper" where
  "parseEntry entry =
     (case entry_categories entry of
        Inl e \<Rightarrow> Inl e
      | Inr cats \<Rightarrow>
          Inr \<lparr>paper_id = entry_id entry,
               title = trim (field_text ''title'' entry),
               published = field_text ''published'' entry,
               updated = field_text ''updated'' entry,
               summary = trim (field_text ''summary'' entry),
               categories = cats,
               authors = entry_authors entry,
               pdfLink = entry_pdfLink entry\<rparr>)"

text \<open>\<open>entries.forEach\<close>: an exception in the callback ends the loop and propagates.\<close>

fun parseEntries :: "node list \<Rightarrow> js_error + paper list" where
  "parseEntries [] = Inr []"
| "parseEntries (e # es) =
     (case parseEntry e of
        Inl err \<Rightarrow> Inl err
      | Inr p \<Rightarrow> (case parseEntries es of Inl err \<Rightarrow> Inl err | Inr ps \<Rightarrow> Inr (p # ps)))"

definition parseArxivResponse :: "(string \<Rightarrow> node) \<Rightarrow> string \<Rightarrow> js_error + paper list" where
  "parseArxivResponse parser xmlText =
     parseEntries (doc_querySelectorAll ''entry'' (parser xmlText))"

section \<open>The browser and the network\<close>

text \<open>
  What one \<open>await fetch(url)\<close> followed by reading the body gives: the promise of
  \<open>fetch\<close> rejects (\<open>Rejected\<close>), or there is a response with a status and a body; the
  body is \<open>None\<close> when reading it (\<open>response.text()\<close>, \<open>response.json()\<close>) rejects.
\<close>

datatype 'a fetched = Rejected | Response (status: nat) (payload: "'a option")

text \<open>\<open>response.ok\<close>\<close>

definition ok :: "nat \<Rightarrow> bool" where
  "ok st = (200 \<le> st \<and> st \<le> 299)"

text \<open>
  The static asset \<open>data/sample-papers.json\<close> is not part of the scripts. Its shape is
  read off the property accesses of \<open>getSamplePapers\<close> and \<open>displaySamplePaperDetails\<close>: an
  object \<open>samplePapers\<close> keyed by id (kept in the order of the file, which is the order
  of \<open>Object.values\<close> for keys that are not array indices; keys are taken to be distinct
  and none of them an array index, which \<open>Object.values\<close> would list first and in
  numeric order) and an optional \<open>defaultSamplePaper\<close>.
\<close>

record sample_paper =
  sp_id :: string
  sp_title :: string
  sp_published :: string
  sp_summary :: string
  sp_categories :: "string list"
  sp_authors :: "string list"
  sp_pdfLink :: string

record sample_data =
  samplePapers :: "(string \<times> sample_paper) list"
  defaultSamplePaper :: "sample_paper option"

text \<open>
  Everything the scripts take from their surroundings, as one value: the XML parser, the
  URL encoder, the \<open>Date\<close> functions (\<open>date_ms s\<close> is the number \<open>new Date(s)\<close> converts
  to, \<open>None\<close> for an invalid date, whose number is \<open>NaN\<close>; \<open>toISOString s\<close> is
  \<open>new Date(s).toISOString()\<close>, \<open>None\<close> where it raises a RangeError; \<open>fullYear s\<close> is the
  text of \<open>new Date(s).getFullYear()\<close> in a template), the \<open>message\<close> of an error
  object, the answer of the network to a request for a URL, and the answer to the
  request for the sample file. One world answers the same request the same way.
\<close>

record world =
  DOMParser :: "string \<Rightarrow> node"
  encodeURIComponent :: "string \<Rightarrow> string"
  date_ms :: "string \<Rightarrow> int option"
  toISOString :: "string \<Rightarrow> string option"
  toLocaleDateString :: "string \<Rightarrow> string"
  fullYear :: "string \<Rightarrow> string"
  message :: "js_error \<Rightarrow> string"
  fetch :: "string \<Rightarrow> string fetched"
  sample_file :: "sample_data fetched"

section \<open>The list page: the proxy loop\<close>

text \<open>
  The loop of \<open>loadPapersForToday\<close> over \<open>proxies\<close>. The result is the value of
  \<open>data\<close> when the loop ends and the URLs requested, in order. \<open>lastError\<close> is written
  but only ever logged, so it is left out.
\<close>

fun list_proxy_loop :: "(string \<Rightarrow> string fetched) \<Rightarrow> string list \<Rightarrow> string option \<times> string list" where
  "list_proxy_loop f [] = (None, [])"
| "list_proxy_loop f (p # ps) =
     (case f p of
        Rejected \<Rightarrow> (fst (list_proxy_loop f ps), p # snd (list_proxy_loop f ps))
      | Response st body \<Rightarrow>
          (if ok st then
             (case body of
                None \<Rightarrow> (fst (list_proxy_loop f ps), p # snd (list_proxy_loop f ps))
              | Some b \<Rightarrow> (Some b, [p]))
           else (fst (list_proxy_loop f ps), p # snd (list_proxy_loop f ps))))"

definition ARXIV_API_BASE :: string where
  "ARXIV_API_BASE = ''https://export.arxiv.org/api/query''"

text \<open>The serialisation of the \<open>URLSearchParams\<close> of \<open>loadPapersForToday\<close>.\<close>

definition list_apiUrl :: string where
  "list_apiUrl = ARXIV_API_BASE @ ''?'' @
     ''search_query=cat%3Acs.LG&sortBy=lastUpdatedDate&sortOrder=descending&max_results=20''"

definition proxies_for :: "(string \<Rightarrow> string) \<Rightarrow> string \<Rightarrow> string list" where
  "proxies_for enc apiUrl =
     [''https://api.codetabs.com/v1/proxy?quest='' @ enc apiUrl,
      ''https://corsproxy.io/?'' @ enc apiUrl,
      ''https://api.allorigins.win/raw?url='' @ enc apiUrl]"

section \<open>The list page: rendering\<close>

text \<open>
  The page state of the list script: its two globals and the content of the element
  \<open>papers-container\<close> (\<open>None\<close> when the page has no such element). The content is kept
  as what was templated into it: the sequence of papers of the last
  \<open>renderPaperList\<close>, the no-papers paragraph, or the message of \<open>showError\<close>.
\<close>

datatype content = Initial | PaperList "paper list" | NoPapers | ErrorMessage string

record page =
  currentCategory :: string
  papersData :: "paper list"
  container :: "content option"

text \<open>
  \<open>(a, b) => new Date(b.published) - new Date(a.published)\<close>. The difference is \<open>NaN\<close>
  when either date is invalid; \<open>Array.prototype.sort\<close> reads a \<open>NaN\<close> result as \<open>0\<close>.
\<close>

definition compare_published :: "(string \<Rightarrow> int option) \<Rightarrow> paper \<Rightarrow> paper \<Rightarrow> int" where
  "compare_published date a b =
     (case date (published b) of
        None \<Rightarrow> 0
      | Some tb \<Rightarrow> (case date (published a) of None \<Rightarrow> 0 | Some ta \<Rightarrow> tb - ta))"

text \<open>
  \<open>Array.prototype.sort(cmp)\<close> is a stable sort: for a consistent comparator its result
  is fixed by the language, and it is the one computed here by stable insertion
  (\<open>js_sort_stable\<close> below: on records that all have a date it is the stable sort by
  descending timestamp). A comparator that answers \<open>NaN\<close> is not consistent; the
  language then leaves the order to the engine, engines differ from one another and
  from this function on such lists, and nothing is concluded from \<open>js_sort\<close> there
  except for the one list of three records below, on which the common engines agree
  with it.
\<close>

fun insert_sorted :: "('a \<Rightarrow> 'a \<Rightarrow> int) \<Rightarrow> 'a \<Rightarrow> 'a list \<Rightarrow> 'a list" where
  "insert_sorted cmp x [] = [x]"
| "insert_sorted cmp x (y # ys) =
     (if cmp x y \<le> 0 then x # y # ys else y # insert_sorted cmp x ys)"

definition js_sort :: "('a \<Rightarrow> 'a \<Rightarrow> int) \<Rightarrow> 'a list \<Rightarrow> 'a list" where
  "js_sort cmp xs = foldr (insert_sorted cmp) xs []"

text \<open>
  \<open>renderPaperList(papers)\<close>. The result is the content of the array \<open>papers\<close> after the
  call and the new page: when \<open>currentCategory\<close> is \<open>'all'\<close> the array sorted is
  \<open>papers\<close> itself, otherwise it is the fresh array \<open>filter\<close> returned.
\<close>

definition renderPaperList :: "(string \<Rightarrow> int option) \<Rightarrow> paper list \<Rightarrow> page \<Rightarrow> paper list \<times> page" where
  "renderPaperList date papers st =
     (case container st of
        None \<Rightarrow> (papers, st)
      | Some c \<Rightarrow>
          (let filteredPapers =
                 (if currentCategory st = ''all'' then papers
                  else filter (\<lambda>p. currentCategory st \<in> set (categories p)) papers)
           in if filteredPapers = [] then (papers, st\<lparr>container := Some NoPapers\<rparr>)
              else (if currentCategory st = ''all''
                    then js_sort (compare_published date) filteredPapers
                    else papers,
                    st\<lparr>container :=
                         Some (PaperList (js_sort (compare_published date) filteredPapers))\<rparr>)))"

definition showError :: "string \<Rightarrow> page \<Rightarrow> page" where
  "showError msg st =
     (case container st of None \<Rightarrow> st | Some c \<Rightarrow> st\<lparr>container := Some (ErrorMessage msg)\<rparr>)"

text \<open>
  \<open>filterByCategory(category)\<close>: every call of \<open>renderPaperList\<close> in the script passes the
  array \<open>papersData\<close>, so the array's new content is stored back there.
\<close>

definition filterByCategory :: "(string \<Rightarrow> int option) \<Rightarrow> string \<Rightarrow> page \<Rightarrow> page" where
  "filterByCategory date category st =
     (let st1 = st\<lparr>currentCategory := category\<rparr>;
          r = renderPaperList date (papersData st1) st1
      in (snd r)\<lparr>papersData := fst r\<rparr>)"

section \<open>The list page: the fallback data\<close>

definition hardcoded_sample_list :: "paper list" where
  "hardcoded_sample_list =
     [\<lparr>paper_id = ''2401.12345'',
       title = ''Sample Paper: Advances in Machine Learning'',
       published = ''2024-01-01T00:00:00Z'',
       updated = ''2024-01-01T00:00:00Z'',
       summary = ''This is a sample paper demonstrating the capabilities of the arXiv CS Daily application.'',
       categories = [''cs.LG'', ''cs.AI''],
       authors = [\<lparr>name = ''John Doe'', affiliation = ''University of Example''\<rparr>,
                  \<lparr>name = ''Jane Smith'', affiliation = ''Tech Institute''\<rparr>],
       pdfLink = ''https://arxiv.org/pdf/2401.12345.pdf''\<rparr>]"

text \<open>One step of the \<open>map\<close> in \<open>getSamplePapers\<close>; \<open>None\<close> when \<open>toISOString\<close> raises.\<close>

definition convert_sample :: "(string \<Rightarrow> string option) \<Rightarrow> sample_paper \<Rightarrow> paper option" where
  "convert_sample toISO sp =
     (case toISO (sp_published sp) of
        None \<Rightarrow> None
      | Some t \<Rightarrow>
          Some \<lparr>paper_id = sp_id sp, title = sp_title sp, published = t, updated = t,
                summary = sp_summary sp, categories = sp_categories sp,
                authors = map (\<lambda>n. \<lparr>name = n, affiliation = []\<rparr>) (sp_authors sp),
                pdfLink = sp_pdfLink sp\<rparr>)"

fun convert_samples :: "(string \<Rightarrow> string option) \<Rightarrow> sample_paper list \<Rightarrow> paper list option" where
  "convert_samples toISO [] = Some []"
| "convert_samples toISO (sp # sps) =
     (case convert_sample toISO sp of
        None \<Rightarrow> None
      | Some p \<Rightarrow> (case convert_samples toISO sps of None \<Rightarrow> None | Some ps \<Rightarrow> Some (p # ps)))"

text \<open>
  \<open>getSamplePapers()\<close>: every failure inside its \<open>try\<close> (the request, a status that is
  not ok, the JSON, a date) ends in the hard-coded list.
\<close>

definition getSamplePapers :: "world \<Rightarrow> paper list" where
  "getSamplePapers w =
     (case sample_file w of
        Rejected \<Rightarrow> hardcoded_sample_list
      | Response st body \<Rightarrow>
          (if \<not> ok st then hardcoded_sample_list
           else (case body of
                   None \<Rightarrow> hardcoded_sample_list
                 | Some d \<Rightarrow>
                     (case convert_samples (toISOString w) (map snd (samplePapers d)) of
                        None \<Rightarrow> hardcoded_sample_list
                      | Some ps \<Rightarrow> ps))))"

section \<open>The list page: \<open>loadPapersForToday\<close>\<close>

text \<open>The two places where \<open>loadPapersForToday\<close> turns to the sample data.\<close>

definition use_sample_data :: "world \<Rightarrow> string \<Rightarrow> page \<Rightarrow> page" where
  "use_sample_data w msg st =
     (let ps = getSamplePapers w;
          r = renderPaperList (date_ms w) ps (st\<lparr>papersData := ps\<rparr>)
      in showError msg ((snd r)\<lparr>papersData := fst r\<rparr>))"

text \<open>
  \<open>loadPapersForToday()\<close>: the page it leaves and the URLs it requested. \<open>!data\<close>
  holds when \<open>data\<close> is still \<open>undefined\<close> and when it is the empty string. An
  exception of \<open>parseArxivResponse\<close> is caught by the outer \<open>catch\<close>. The loading
  indicator is a separate element and is left out.
\<close>

definition loadPapersForToday :: "world \<Rightarrow> page \<Rightarrow> page \<times> string list" where
  "loadPapersForToday w st =
     (let r = list_proxy_loop (fetch w) (proxies_for (encodeURIComponent w) list_apiUrl)
      in (case fst r of
            None \<Rightarrow> (use_sample_data w ''Using sample data: API proxies unavailable'' st, snd r)
          | Some d \<Rightarrow>
              (if d = [] then
                 (use_sample_data w ''Using sample data: API proxies unavailable'' st, snd r)
               else (case parseArxivResponse (DOMParser w) d of
                       Inl e \<Rightarrow> (use_sample_data w (''Using sample data: '' @ message w e) st, snd r)
                     | Inr ps \<Rightarrow>
                         (let q = renderPaperList (date_ms w) ps (st\<lparr>papersData := ps\<rparr>)
                          in ((snd q)\<lparr>papersData := fst q\<rparr>, snd r))))))"

section \<open>The detail page: the proxy loop\<close>

text \<open>
  The loop of \<open>fetchPaperDetails\<close>. \<open>data\<close> is assigned as soon as the body is read,
  before the test for the words \<open>Error\<close> and \<open>error\<close>; on \<open>continue\<close> it keeps that
  body. The second argument is \<open>data\<close> at the start of the iteration.
\<close>

definition signals_error :: "string \<Rightarrow> bool" where
  "signals_error b = (includes_str b ''Error'' \<or> includes_str b ''error'')"

fun detail_proxy_loop ::
  "(string \<Rightarrow> string fetched) \<Rightarrow> string option \<Rightarrow> string list \<Rightarrow> string option \<times> string list" where
  "detail_proxy_loop f d [] = (d, [])"
| "detail_proxy_loop f d (p # ps) =
     (case f p of
        Rejected \<Rightarrow> (fst (detail_proxy_loop f d ps), p # snd (detail_proxy_loop f d ps))
      | Response st body \<Rightarrow>
          (if ok st then
             (case body of
                None \<Rightarrow> (fst (detail_proxy_loop f d ps), p # snd (detail_proxy_loop f d ps))
              | Some b \<Rightarrow>
                  (if signals_error b
                   then (fst (detail_proxy_loop f (Some b) ps),
                         p # snd (detail_proxy_loop f (Some b) ps))
                   else (Some b, [p])))
           else (fst (detail_proxy_loop f d ps), p # snd (detail_proxy_loop f d ps))))"

section \<open>The detail page: what is displayed\<close>

text \<open>
  The object templated into the element \<open>paper-detail\<close> by \<open>displayPaperDetails\<close> and
  \<open>displaySamplePaperDetails\<close>, and the arguments handed to \<open>setupCitationButtons\<close>. The
  element and the two buttons are taken to exist.
\<close>

record detail_paper =
  d_title :: string
  d_authors :: "string list"
  d_published :: string
  d_summary :: string
  d_pdfLink :: string

record citation_args =
  c_id :: string
  c_title :: string
  c_authors :: "string list"
  c_published :: string

record detail_page =
  sample_note :: bool
  shown :: detail_paper
  cite :: citation_args

text \<open>\<open>e.getElementsByTagName(t)[0]?.textContent || dflt\<close>\<close>

definition text_or :: "string \<Rightarrow> string \<Rightarrow> node \<Rightarrow> string" where
  "text_or t dflt e =
     (case querySelector t e of
        None \<Rightarrow> dflt
      | Some x \<Rightarrow> (if textContent x = [] then dflt else textContent x))"

text \<open>
  The loop over \<open>links\<close>: the \<open>href\<close> of the first link whose \<open>title\<close> is \<open>pdf\<close> or
  whose \<open>type\<close> is \<open>application/pdf\<close>; \<open>None\<close> is the \<open>null\<close> of a missing \<open>href\<close>.
\<close>

fun find_pdfLink :: "node list \<Rightarrow> string option" where
  "find_pdfLink [] = Some []"
| "find_pdfLink (l # ls) =
     (if getAttribute ''title'' l = Some ''pdf'' \<or> getAttribute ''type'' l = Some ''application/pdf''
      then getAttribute ''href'' l
      else find_pdfLink ls)"

definition detail_pdfLink :: "string \<Rightarrow> node \<Rightarrow> string" where
  "detail_pdfLink i entry =
     (case find_pdfLink (querySelectorAll ''link'' entry) of
        None \<Rightarrow> ''https://arxiv.org/pdf/'' @ i @ ''.pdf''
      | Some h \<Rightarrow> (if h = [] then ''https://arxiv.org/pdf/'' @ i @ ''.pdf'' else h))"

text \<open>
  The part of \<open>fetchPaperDetails\<close> from \<open>new DOMParser()\<close> to \<open>setupCitationButtons\<close>:
  the two \<open>throw\<close> statements are its errors.
\<close>

definition parsePaperDetails :: "world \<Rightarrow> string \<Rightarrow> string \<Rightarrow> js_error + detail_page" where
  "parsePaperDetails w i d =
     (if doc_querySelectorAll ''parsererror'' (DOMParser w d) \<noteq> []
      then Inl (Error ''Invalid XML response'')
      else (case doc_querySelectorAll ''entry'' (DOMParser w d) of
              [] \<Rightarrow> Inl (Error ''Paper not found in API response'')
            | entry # es \<Rightarrow>
                Inr \<lparr>sample_note = False,
                     shown = \<lparr>d_title = text_or ''title'' ''No title'' entry,
                              d_authors = map (text_or ''name'' ''Unknown author'')
                                              (querySelectorAll ''author'' entry),
                              d_published = toLocaleDateString w
                                              (text_or ''published'' ''Unknown date'' entry),
                              d_summary = text_or ''summary'' ''No summary available'' entry,
                              d_pdfLink = detail_pdfLink i entry\<rparr>,
                     cite = \<lparr>c_id = i,
                             c_title = text_or ''title'' ''No title'' entry,
                             c_authors = map (text_or ''name'' ''Unknown author'')
                                             (querySelectorAll ''author'' entry),
                             c_published = text_or ''published'' ''Unknown date'' entry\<rparr>\<rparr>))"

section \<open>The detail page: the fallback data\<close>

text \<open>
  A property read \<open>obj[key]\<close> on an object literal or an object made by \<open>JSON.parse\<close>:
  the object's own property, or one inherited from \<open>Object.prototype\<close> (a function, or
  the prototype itself for \<open>__proto__\<close>; every one of them is truthy and has none of the
  fields of a paper), or \<open>undefined\<close>.
\<close>

datatype 'a property = Own 'a | Inherited | Missing

definition object_prototype_names :: "string list" where
  "object_prototype_names =
     [''constructor'', ''__defineGetter__'', ''__defineSetter__'', ''hasOwnProperty'',
      ''__lookupGetter__'', ''__lookupSetter__'', ''isPrototypeOf'', ''propertyIsEnumerable'',
      ''toString'', ''valueOf'', ''__proto__'', ''toLocaleString'']"

definition get_property :: "(string \<times> 'a) list \<Rightarrow> string \<Rightarrow> 'a property" where
  "get_property obj k =
     (case map_of obj k of
        Some v \<Rightarrow> Own v
      | None \<Rightarrow> (if k \<in> set object_prototype_names then Inherited else Missing))"

definition hardcodedSamplePapers :: "(string \<times> detail_paper) list" where
  "hardcodedSamplePapers =
     [(''2401.12345'',
       \<lparr>d_title = ''Sample Paper: Advances in Machine Learning'',
        d_authors = [''John Doe'', ''Jane Smith''],
        d_published = ''January 1, 2024'',
        d_summary = ''This is a sample paper demonstrating the capabilities of the arXiv CS Daily application. It showcases recent advances in machine learning algorithms and their practical applications.'',
        d_pdfLink = ''https://arxiv.org/pdf/2401.12345.pdf''\<rparr>),
      (''2401.12346'',
       \<lparr>d_title = ''Sample Paper: Computer Vision Applications'',
        d_authors = [''Alice Johnson''],
        d_published = ''January 1, 2024'',
        d_summary = ''Exploring recent developments in computer vision and image recognition. This paper discusses novel approaches to object detection and image classification.'',
        d_pdfLink = ''https://arxiv.org/pdf/2401.12346.pdf''\<rparr>),
      (''2401.12347'',
       \<lparr>d_title = ''Sample Paper: Natural Language Processing Trends'',
        d_authors = [''Bob Wilson'', ''Carol Brown''],
        d_published = ''January 1, 2024'',
        d_summary = ''Analysis of current trends in natural language processing and text understanding. This research focuses on transformer architectures and their applications.'',
        d_pdfLink = ''https://arxiv.org/pdf/2401.12347.pdf''\<rparr>)]"

text \<open>The object on the right of \<open>hardcodedSamplePapers[id] ||\<close>.\<close>

definition generic_sample_paper :: detail_paper where
  "generic_sample_paper =
     \<lparr>d_title = ''Sample Paper'',
      d_authors = [''Sample Author''],
      d_published = ''2024'',
      d_summary = ''This is a sample paper demonstrating the arXiv CS Daily application functionality.'',
      d_pdfLink = ''https://arxiv.org/abs/2401.00001''\<rparr>"

definition of_sample :: "sample_paper \<Rightarrow> detail_paper" where
  "of_sample sp =
     \<lparr>d_title = sp_title sp, d_authors = sp_authors sp, d_published = sp_published sp,
      d_summary = sp_summary sp, d_pdfLink = sp_pdfLink sp\<rparr>"

text \<open>
  The \<open>catch\<close> block of \<open>displaySamplePaperDetails\<close>. An inherited property is truthy, so
  it becomes \<open>paper\<close>; its \<open>authors\<close> is \<open>undefined\<close> and \<open>paper.authors.join\<close>, which
  runs after the \<open>try\<close> statement, raises a TypeError.
\<close>

definition hardcoded_lookup :: "string \<Rightarrow> js_error + detail_paper" where
  "hardcoded_lookup i =
     (case get_property hardcodedSamplePapers i of
        Own p \<Rightarrow> Inr p
      | Inherited \<Rightarrow> Inl TypeError
      | Missing \<Rightarrow> Inr generic_sample_paper)"

text \<open>
  The \<open>paper\<close> that \<open>displaySamplePaperDetails(id)\<close> chooses. Reading a field of a
  missing \<open>defaultSamplePaper\<close> raises inside the \<open>try\<close> and so leads to the \<open>catch\<close>
  block, as every failure of the request does.
\<close>

definition choose_sample_paper :: "world \<Rightarrow> string \<Rightarrow> js_error + detail_paper" where
  "choose_sample_paper w i =
     (case sample_file w of
        Rejected \<Rightarrow> hardcoded_lookup i
      | Response st body \<Rightarrow>
          (if \<not> ok st then hardcoded_lookup i
           else (case body of
                   None \<Rightarrow> hardcoded_lookup i
                 | Some d \<Rightarrow>
                     (case get_property (samplePapers d) i of
                        Own sp \<Rightarrow> Inr (of_sample sp)
                      | Inherited \<Rightarrow> Inl TypeError
                      | Missing \<Rightarrow>
                          (case defaultSamplePaper d of
                             None \<Rightarrow> hardcoded_lookup i
                           | Some sp \<Rightarrow> Inr (of_sample sp))))))"

definition displaySamplePaperDetails :: "world \<Rightarrow> string \<Rightarrow> js_error + detail_page" where
  "displaySamplePaperDetails w i =
     (case choose_sample_paper w i of
        Inl e \<Rightarrow> Inl e
      | Inr p \<Rightarrow>
          Inr \<lparr>sample_note = True,
               shown = p,
               cite = \<lparr>c_id = i, c_title = d_title p, c_authors = d_authors p,
                       c_published = d_published p\<rparr>\<rparr>)"

section \<open>The detail page: \<open>fetchPaperDetails\<close>\<close>

definition detail_apiUrl :: "string \<Rightarrow> string" where
  "detail_apiUrl i = ''https://export.arxiv.org/api/query?id_list='' @ i"

text \<open>
  \<open>fetchPaperDetails(id)\<close>: what the page shows at the end, or the error the function
  rejects with, and the URLs requested. Both the \<open>!data\<close> branch and the two
  \<open>throw\<close> statements sit inside the \<open>try\<close>, whose \<open>catch\<close> calls
  \<open>displaySamplePaperDetails\<close>.
\<close>

definition fetchPaperDetails :: "world \<Rightarrow> string \<Rightarrow> (js_error + detail_page) \<times> string list" where
  "fetchPaperDetails w i =
     (let r = detail_proxy_loop (fetch w) None (proxies_for (encodeURIComponent w) (detail_apiUrl i))
      in (case fst r of
            None \<Rightarrow> (displaySamplePaperDetails w i, snd r)
          | Some d \<Rightarrow>
              (if d = [] then (displaySamplePaperDetails w i, snd r)
               else (case parsePaperDetails w i d of
                       Inl e \<Rightarrow> (displaySamplePaperDetails w i, snd r)
                     | Inr pg \<Rightarrow> (Inr pg, snd r)))))"

section \<open>The detail page: the citation generators\<close>

text \<open>One step of the \<open>map\<close> in \<open>generateBibtex\<close>: \<open>parts.pop()\<close>, then \<open>parts.join(' ')\<close>.\<close>

definition bibtex_author :: "string \<Rightarrow> string" where
  "bibtex_author n =
     last (split_on CHR '' '' n) @ '', '' @ join '' '' (butlast (split_on CHR '' '' n))"

text \<open>
  \<open>generateBibtex(id, title, authors, published)\<close>. \<open>split\<close> makes a new array for every
  name, so \<open>pop\<close> changes none of the arguments. \<open>nl\<close> is the line break of the
  template.
\<close>

definition nl :: string where
  "nl = [CHR 0x0A]"

definition generateBibtex :: "(string \<Rightarrow> string) \<Rightarrow> string \<Rightarrow> string \<Rightarrow> string list \<Rightarrow> string \<Rightarrow> string" where
  "generateBibtex year i t as p =
     ''@article{'' @ i @ '','' @ nl @
     ''  title={'' @ t @ ''},'' @ nl @
     ''  author={'' @ join '' and '' (map bibtex_author as) @ ''},'' @ nl @
     ''  journal={arXiv preprint arXiv:'' @ i @ ''},'' @ nl @
     ''  year={'' @ year p @ ''}'' @ nl @
     ''}''"

text \<open>
  \<open>generateStandardCitation(title, authors, published)\<close>: the citation, and the content
  of the caller's array \<open>authors\<close> after the call. \<open>authors.pop()\<close> removes the last
  element of that array.
\<close>

definition generateStandardCitation ::
  "(string \<Rightarrow> string) \<Rightarrow> string \<Rightarrow> string list \<Rightarrow> string \<Rightarrow> string \<times> string list" where
  "generateStandardCitation year t as p =
     (if length as > 1
      then (join '', '' (butlast as) @ '' and '' @ last as @ '' ('' @ year p @ ''). '' @ t
              @ ''. arXiv preprint.'',
            butlast as)
      else (join '', '' as @ '' ('' @ year p @ ''). '' @ t @ ''. arXiv preprint.'', as))"

text \<open>
  The two click handlers installed by \<open>setupCitationButtons\<close> close over the same array
  \<open>authors\<close>. A click gives the text handed to \<open>copyToClipboard\<close> and the arguments as
  the next click finds them.
\<close>

definition click_bibtex :: "(string \<Rightarrow> string) \<Rightarrow> citation_args \<Rightarrow> string \<times> citation_args" where
  "click_bibtex year c = (generateBibtex year (c_id c) (c_title c) (c_authors c) (c_published c), c)"

definition click_citation :: "(string \<Rightarrow> string) \<Rightarrow> citation_args \<Rightarrow> string \<times> citation_args" where
  "click_citation year c =
     (fst (generateStandardCitation year (c_title c) (c_authors c) (c_published c)),
      c\<lparr>c_authors := snd (generateStandardCitation year (c_title c) (c_authors c) (c_published c))\<rparr>)"

section \<open>The category table\<close>

definition CATEGORY_MAP :: "(string \<times> string) list" where
  "CATEGORY_MAP =
     [(''cs.AI'', ''Artificial Intelligence''),
      (''cs.CL'', ''Computation and Language''),
      (''cs.CC'', ''Computational Complexity''),
      (''cs.CE'', ''Computational Engineering, Finance, and Science''),
      (''cs.CG'', ''Computational Geometry''),
      (''cs.GT'', ''Computer Science and Game Theory''),
      (''cs.CV'', ''Computer Vision and Pattern Recognition''),
      (''cs.CY'', ''Computers and Society''),
      (''cs.CR'', ''Cryptography and Security''),
      (''cs.DS'', ''Data Structures and Algorithms''),
      (''cs.DB'', ''Databases''),
      (''cs.DL'', ''Digital Libraries''),
      (''cs.DM'', ''Discrete Mathematics''),
      (''cs.DC'', ''Distributed, Parallel, and Cluster Computing''),
      (''cs.ET'', ''Emerging Technologies''),
      (''cs.FL'', ''Formal Languages and Automata Theory''),
      (''cs.GL'', ''General Literature''),
      (''cs.GR'', ''Graphics''),
      (''cs.AR'', ''Hardware Architecture''),
      (''cs.HC'', ''Human-Computer Interaction''),
      (''cs.IR'', ''Information Retrieval''),
      (''cs.IT'', ''Information Theory''),
      (''cs.LG'', ''Machine Learning''),
      (''cs.LO'', ''Logic in Computer Science''),
      (''cs.MS'', ''Mathematical Software''),
      (''cs.MA'', ''Multiagent Systems''),
      (''cs.MM'', ''Multimedia''),
      (''cs.NI'', ''Networking and Internet Architecture''),
      (''cs.NE'', ''Neural and Evolutionary Computing''),
      (''cs.NUM'', ''Numerical Analysis''),
      (''cs.OS'', ''Operating Systems''),
      (''cs.OH'', ''Other''),
      (''cs.PF'', ''Performance''),
      (''cs.PL'', ''Programming Languages''),
      (''cs.RO'', ''Robotics''),
      (''cs.SI'', ''Social and Information Networks''),
      (''cs.SE'', ''Software Engineering''),
      (''cs.SD'', ''Sound''),
      (''cs.SC'', ''Symbolic Computation''),
      (''cs.SY'', ''Systems and Control'')]"

section \<open>Notions used to state the properties\<close>

text \<open>
  The identifier URL of an entry, and the final path segment of a URL: what follows
  its last slash.
\<close>

definition identifier_url :: "node \<Rightarrow> string option" where
  "identifier_url entry = map_option textContent (querySelector ''id'' entry)"

definition last_segment :: "string \<Rightarrow> string" where
  "last_segment u = rev (takeWhile (\<lambda>c. c \<noteq> CHR ''/'') (rev u))"

text \<open>
  A well-formed entry carries an identifier, and each of its category tags carries the
  \<open>term\<close> attribute.
\<close>

definition well_formed_entry :: "node \<Rightarrow> bool" where
  "well_formed_entry entry =
     (identifier_url entry \<noteq> None \<and>
      list_all (\<lambda>c. getAttribute ''term'' c \<noteq> None) (querySelectorAll ''category'' entry))"

text \<open>
  A structurally valid body, in the words of the specification: not empty, and the
  parser reports no error for it.
\<close>

definition structurally_valid :: "(string \<Rightarrow> node) \<Rightarrow> string \<Rightarrow> bool" where
  "structurally_valid parser b = (b \<noteq> [] \<and> doc_querySelectorAll ''parsererror'' (parser b) = [])"

text \<open>
  The body with which an attempt ends the loop of the list page, if it does: the loop
  tests \<open>response.ok\<close> and nothing else. The loop of the detail page also tests the body
  for the words \<open>Error\<close> and \<open>error\<close>.
\<close>

definition accepted_list :: "string fetched \<Rightarrow> string option" where
  "accepted_list r =
     (case r of Rejected \<Rightarrow> None | Response st body \<Rightarrow> (if ok st then body else None))"

definition accepted_detail :: "string fetched \<Rightarrow> string option" where
  "accepted_detail r =
     (case accepted_list r of
        None \<Rightarrow> None
      | Some b \<Rightarrow> (if signals_error b then None else Some b))"

text \<open>
  The sample file as \<open>displaySamplePaperDetails\<close> gets to read it, and the record it is
  to show for an id: the matching record of the file, else the default record of the
  file, else the matching hard-coded record, else the generic hard-coded record.
\<close>

definition loaded_sample_data :: "world \<Rightarrow> sample_data option" where
  "loaded_sample_data w =
     (case sample_file w of
        Rejected \<Rightarrow> None
      | Response st body \<Rightarrow> (if ok st then body else None))"

definition lookup_by_id :: "sample_data option \<Rightarrow> string \<Rightarrow> detail_paper" where
  "lookup_by_id ds i =
     (case Option.bind ds (\<lambda>d. map_of (samplePapers d) i) of
        Some sp \<Rightarrow> of_sample sp
      | None \<Rightarrow>
          (case Option.bind ds defaultSamplePaper of
             Some sp \<Rightarrow> of_sample sp
           | None \<Rightarrow>
               (case map_of hardcodedSamplePapers i of
                  Some p \<Rightarrow> p
                | None \<Rightarrow> generic_sample_paper)))"

text \<open>The timestamps of the papers of a list do not increase along the list.\<close>

definition newest_first :: "(string \<Rightarrow> int option) \<Rightarrow> paper list \<Rightarrow> bool" where
  "newest_first date ps =
     sorted_wrt (\<lambda>a b. \<exists>ta tb. date (published a) = Some ta \<and> date (published b) = Some tb
                            \<and> tb \<le> ta) ps"

section \<open>Example documents and worlds\<close>

text \<open>
  Four response bodies with the documents an XML parser makes of them: a feed of two
  entries, a feed without entries, the feed the search API answers an ill-formed id
  with, and a feed whose entry has a category tag without \<open>term\<close>. Any other text is
  answered with the parser's error document.
\<close>

definition feed_text :: string where
  \<open>feed_text = ''<feed><entry><id>http://arxiv.org/abs/2401.00001v1</id><title> Sparse Solvers </title><published>2024-01-02T00:00:00Z</published><category term="cs.NA"/><category term="math.NA"/><author><name>Ann Lee</name></author><link title="pdf" href="http://arxiv.org/pdf/2401.00001v1"/></entry><entry><id>http://arxiv.org/abs/2401.00002v1</id><title>Deep Nets</title><published>2024-01-03T00:00:00Z</published><category term="cs.LG"/></entry></feed>''\<close>

definition feed_doc :: node where
  "feed_doc =
     Element ''feed'' []
       [Element ''entry'' []
          [Element ''id'' [] [Text ''http://arxiv.org/abs/2401.00001v1''],
           Element ''title'' [] [Text '' Sparse Solvers ''],
           Element ''published'' [] [Text ''2024-01-02T00:00:00Z''],
           Element ''category'' [(''term'', ''cs.NA'')] [],
           Element ''category'' [(''term'', ''math.NA'')] [],
           Element ''author'' [] [Element ''name'' [] [Text ''Ann Lee'']],
           Element ''link'' [(''title'', ''pdf''), (''href'', ''http://arxiv.org/pdf/2401.00001v1'')] []],
        Element ''entry'' []
          [Element ''id'' [] [Text ''http://arxiv.org/abs/2401.00002v1''],
           Element ''title'' [] [Text ''Deep Nets''],
           Element ''published'' [] [Text ''2024-01-03T00:00:00Z''],
           Element ''category'' [(''term'', ''cs.LG'')] []]]"

definition empty_feed_text :: string where
  "empty_feed_text = ''<feed><title>ArXiv Query</title></feed>''"

definition empty_feed_doc :: node where
  "empty_feed_doc = Element ''feed'' [] [Element ''title'' [] [Text ''ArXiv Query'']]"

definition error_feed_text :: string where
  "error_feed_text = ''<feed><entry><id>http://arxiv.org/api/errors#incorrect_id_format_for_abc</id><title>Error</title><summary>incorrect id format for abc</summary></entry></feed>''"

definition error_feed_doc :: node where
  "error_feed_doc =
     Element ''feed'' []
       [Element ''entry'' []
          [Element ''id'' [] [Text ''http://arxiv.org/api/errors#incorrect_id_format_for_abc''],
           Element ''title'' [] [Text ''Error''],
           Element ''summary'' [] [Text ''incorrect id format for abc'']]]"

definition untermed_text :: string where
  \<open>untermed_text = ''<feed><entry><id>http://arxiv.org/abs/2401.00003v1</id><category scheme="http://arxiv.org/schemas/atom"/></entry></feed>''\<close>

definition untermed_doc :: node where
  "untermed_doc =
     Element ''feed'' []
       [Element ''entry'' []
          [Element ''id'' [] [Text ''http://arxiv.org/abs/2401.00003v1''],
           Element ''category'' [(''scheme'', ''http://arxiv.org/schemas/atom'')] []]]"

definition not_xml_text :: string where
  "not_xml_text = ''<html>Bad Gateway''"

definition parsererror_doc :: node where
  "parsererror_doc = Element ''parsererror'' [] [Text ''XML Parsing Error: no element found'']"

definition example_parser :: "string \<Rightarrow> node" where
  "example_parser s =
     (if s = feed_text then feed_doc
      else if s = empty_feed_text then empty_feed_doc
      else if s = error_feed_text then error_feed_doc
      else if s = untermed_text then untermed_doc
      else parsererror_doc)"

text \<open>\<open>encodeURIComponent\<close> on ASCII text.\<close>

definition unreserved :: "char \<Rightarrow> bool" where
  "unreserved c =
     (c \<in> set ''ABCDEFGHIJKLMNOPQRSTUVWXYZabcdefghijklmnopqrstuvwxyz0123456789-_.!~*()''
      \<or> c = CHR 0x27)"

definition hexdigit :: "nat \<Rightarrow> char" where
  "hexdigit n = ''0123456789ABCDEF'' ! n"

definition percent_encode :: "string \<Rightarrow> string" where
  "percent_encode s =
     concat (map (\<lambda>c. if unreserved c then [c]
                       else [CHR ''%'', hexdigit (of_char c div 16), hexdigit (of_char c mod 16)]) s)"

text \<open>The \<open>Date\<close> functions and \<open>error.message\<close> on the few texts the examples use.\<close>

definition example_date_ms :: "string \<Rightarrow> int option" where
  "example_date_ms s =
     (if s = ''2024-01-01T00:00:00Z'' then Some 1704067200000
      else if s = ''2024-01-02T00:00:00Z'' then Some 1704153600000
      else if s = ''2024-01-03T00:00:00Z'' then Some 1704240000000
      else None)"

definition example_toISOString :: "string \<Rightarrow> string option" where
  "example_toISOString s =
     (if s = ''2024-01-01T00:00:00Z'' then Some ''2024-01-01T00:00:00.000Z''
      else if s = ''2024-01-02T00:00:00Z'' then Some ''2024-01-02T00:00:00.000Z''
      else if s = ''2024-01-03T00:00:00Z'' then Some ''2024-01-03T00:00:00.000Z''
      else None)"

definition example_toLocaleDateString :: "string \<Rightarrow> string" where
  "example_toLocaleDateString s =
     (if s = ''2024-01-01T00:00:00Z'' then ''1/1/2024''
      else if s = ''2024-01-02T00:00:00Z'' then ''1/2/2024''
      else if s = ''2024-01-03T00:00:00Z'' then ''1/3/2024''
      else ''Invalid Date'')"

definition example_fullYear :: "string \<Rightarrow> string" where
  "example_fullYear s =
     (if s = ''2024-01-01T00:00:00Z'' \<or> s = ''2024-01-02T00:00:00Z'' \<or> s = ''2024-01-03T00:00:00Z''
         \<or> s = ''January 1, 2024'' \<or> s = ''2024''
      then ''2024'' else ''NaN'')"

definition example_message :: "js_error \<Rightarrow> string" where
  "example_message e =
     (case e of TypeError \<Rightarrow> ''term is null'' | RangeError \<Rightarrow> ''Invalid time value'' | Error m \<Rightarrow> m)"

text \<open>
  A network in which the three intermediaries answer \<open>r1\<close>, \<open>r2\<close> and \<open>r3\<close> whatever
  the query, and nothing else answers.
\<close>

definition answers :: "string fetched \<Rightarrow> string fetched \<Rightarrow> string fetched \<Rightarrow> string \<Rightarrow> string fetched" where
  "answers r1 r2 r3 u =
     (if startsWith u ''https://api.codetabs.com/'' then r1
      else if startsWith u ''https://corsproxy.io/'' then r2
      else if startsWith u ''https://api.allorigins.win/'' then r3
      else Rejected)"

text \<open>A world without the sample file, in which the intermediaries answer as given.\<close>

definition example_world :: "string fetched \<Rightarrow> string fetched \<Rightarrow> string fetched \<Rightarrow> world" where
  "example_world r1 r2 r3 =
     \<lparr>DOMParser = example_parser,
      encodeURIComponent = percent_encode,
      date_ms = example_date_ms,
      toISOString = example_toISOString,
      toLocaleDateString = example_toLocaleDateString,
      fullYear = example_fullYear,
      message = example_message,
      fetch = answers r1 r2 r3,
      sample_file = Response 404 None\<rparr>"

text \<open>A page that has the container and shows all categories.\<close>

definition start_page :: page where
  "start_page = \<lparr>currentCategory = ''all'', papersData = [], container = Some Initial\<rparr>"

text \<open>A sample file with one record and no default record.\<close>

definition example_sample_data :: sample_data where
  "example_sample_data =
     \<lparr>samplePapers =
        [(''2401.12345'',
          \<lparr>sp_id = ''2401.12345'', sp_title = ''A Sample'', sp_published = ''2024-01-01T00:00:00Z'',
           sp_summary = ''About samples.'', sp_categories = [''cs.LG''],
           sp_authors = [''John Doe''], sp_pdfLink = ''https://arxiv.org/pdf/2401.12345.pdf''\<rparr>)],
      defaultSamplePaper = None\<rparr>"

text \<open>The intermediaries of the list page and of the detail page for the id \<open>abc\<close>.\<close>

definition example_list_proxies :: "string list" where
  "example_list_proxies = proxies_for percent_encode list_apiUrl"

definition example_detail_proxies :: "string list" where
  "example_detail_proxies = proxies_for percent_encode (detail_apiUrl ''abc'')"

text \<open>
  Worlds for the examples. In the first, intermediary 1 times out, intermediary 2
  answers with status 500 and intermediary 3 with the feed of two entries. In the
  second, intermediary 1 answers with a page that is not XML and intermediary 2 with the
  feed. In the third, intermediary 1 answers with an empty body and intermediary 2 with
  the feed. In the fourth, intermediary 1 answers with the error feed, intermediary 2
  with status 503 and intermediary 3 with the feed. In the last, every intermediary
  answers with the error feed of the search API.
\<close>

definition world_third_serves :: world where
  "world_third_serves =
     example_world Rejected (Response 500 (Some ''Internal Server Error''))
       (Response 200 (Some feed_text))"

definition world_invalid_first :: world where
  "world_invalid_first =
     example_world (Response 200 (Some not_xml_text)) (Response 200 (Some feed_text)) Rejected"

definition world_empty_first :: world where
  "world_empty_first =
     example_world (Response 200 (Some [])) (Response 200 (Some feed_text)) Rejected"

definition world_error_then_feed :: world where
  "world_error_then_feed =
     example_world (Response 200 (Some error_feed_text)) (Response 503 None)
       (Response 200 (Some feed_text))"

definition world_error_feeds :: world where
  "world_error_feeds =
     example_world (Response 200 (Some error_feed_text)) (Response 200 (Some error_feed_text))
       (Response 200 (Some error_feed_text))"

text \<open>The records of the two entries of \<open>feed_doc\<close>.\<close>

definition feed_paper_1 :: paper where
  "feed_paper_1 =
     \<lparr>paper_id = ''2401.00001v1'', title = ''Sparse Solvers'',
      published = ''2024-01-02T00:00:00Z'', updated = [], summary = [],
      categories = [''cs.NA''],
      authors = [\<lparr>name = ''Ann Lee'', affiliation = []\<rparr>],
      pdfLink = ''http://arxiv.org/pdf/2401.00001v1''\<rparr>"

definition feed_paper_2 :: paper where
  "feed_paper_2 =
     \<lparr>paper_id = ''2401.00002v1'', title = ''Deep Nets'',
      published = ''2024-01-03T00:00:00Z'', updated = [], summary = [],
      categories = [''cs.LG''], authors = [], pdfLink = []\<rparr>"

text \<open>
  A world in which no intermediary answers and the sample file has one record and no
  default record.
\<close>

definition world_sample_without_default :: world where
  "world_sample_without_default =
     (example_world Rejected Rejected Rejected)
       \<lparr>sample_file := Response 200 (Some example_sample_data)\<rparr>"

text \<open>The arguments of the citation buttons for the first hard-coded sample paper.\<close>

definition sample_citation_args :: citation_args where
  "sample_citation_args =
     \<lparr>c_id = ''2401.12345'', c_title = ''Sample Paper: Advances in Machine Learning'',
      c_authors = [''John Doe'', ''Jane Smith''], c_published = ''January 1, 2024''\<rparr>"




text \<open>The timestamp of a record that has a date.\<close>

definition timestamp :: "(string \<Rightarrow> int option) \<Rightarrow> paper \<Rightarrow> int" where
  "timestamp date p = (case date (published p) of None \<Rightarrow> 0 | Some t \<Rightarrow> t)"

section \<open>Basic facts\<close>

lemma split_on_nonempty: "split_on c s \<noteq> []"
  by (induction s) (auto split: list.splits)

lemma split_on_no_sep: "c \<notin> set s \<Longrightarrow> split_on c s = [s]"
  by (induction s) auto

lemma split_on_sep_tail: "c \<in> set s \<Longrightarrow> \<exists>p q qs. split_on c s = p # q # qs"
proof (induction s)
  case Nil
  then show ?case by simp
next
  case (Cons x xs)
  show ?case
  proof (cases "x = c")
    case True
    then show ?thesis using split_on_nonempty[of c xs] by (cases "split_on c xs") auto
  next
    case False
    with Cons obtain p q qs where "split_on c xs = p # q # qs" by auto
    with False show ?thesis by simp
  qed
qed

lemma takeWhile_snoc:
  "takeWhile P (ys @ [x]) =
     (if list_all P ys then (if P x then ys @ [x] else ys) else takeWhile P ys)"
  by (induction ys) auto

lemma last_split_on: "last (split_on c s) = rev (takeWhile (\<lambda>x. x \<noteq> c) (rev s))"
proof (induction s)
  case Nil
  then show ?case by simp
next
  case (Cons x xs)
  show ?case
  proof (cases "c \<in> set xs")
    case True
    then obtain p q qs where sp: "split_on c xs = p # q # qs"
      using split_on_sep_tail by blast
    from True have "\<not> list_all (\<lambda>x. x \<noteq> c) (rev xs)"
      by (auto simp: list_all_iff)
    then have "takeWhile (\<lambda>x. x \<noteq> c) (rev xs @ [x]) = takeWhile (\<lambda>x. x \<noteq> c) (rev xs)"
      by (simp add: takeWhile_snoc)
    with sp Cons show ?thesis by simp
  next
    case False
    then have sp: "split_on c xs = [xs]" by (rule split_on_no_sep)
    from False have all: "list_all (\<lambda>x. x \<noteq> c) (rev xs)"
      by (auto simp: list_all_iff)
    then have "takeWhile (\<lambda>x. x \<noteq> c) (rev xs @ [x]) = (if x \<noteq> c then rev xs @ [x] else rev xs)"
      by (simp add: takeWhile_snoc)
    with sp show ?thesis by simp
  qed
qed

lemma filter_terms_total:
  "list_all (\<lambda>t. t \<noteq> None) ts \<Longrightarrow> \<exists>r. filter_terms ts = Inr r"
  by (induction ts rule: filter_terms.induct) auto

lemma filter_terms_prefix:
  "filter_terms ts = Inr r \<Longrightarrow> list_all (\<lambda>c. startsWith c ''cs.'') r"
  by (induction ts arbitrary: r rule: filter_terms.induct) (auto split: sum.splits if_splits)

lemma filter_terms_none:
  "None \<in> set ts \<Longrightarrow> filter_terms ts = Inl TypeError"
  by (induction ts rule: filter_terms.induct) (auto split: sum.splits)

lemma parseEntry_well_formed:
  assumes "well_formed_entry e"
  shows "\<exists>p u. parseEntry e = Inr p \<and> identifier_url e = Some u \<and> paper_id p = last_segment u"
proof -
  from assms obtain x where x: "querySelector ''id'' e = Some x"
    by (auto simp: well_formed_entry_def identifier_url_def)
  from assms obtain r where r: "entry_categories e = Inr r"
    using filter_terms_total[of "map (getAttribute ''term'') (querySelectorAll ''category'' e)"]
    by (auto simp: well_formed_entry_def entry_categories_def list_all_iff)
  show ?thesis
    using x r by (simp add: parseEntry_def identifier_url_def entry_id_def last_segment_def last_split_on)
qed

lemma parseEntries_well_formed:
  "list_all well_formed_entry es \<Longrightarrow>
   \<exists>ps. parseEntries es = Inr ps \<and>
        list_all2 (\<lambda>e p. \<exists>u. identifier_url e = Some u \<and> paper_id p = last_segment u) es ps"
proof (induction es)
  case Nil
  then show ?case by simp
next
  case (Cons e es)
  then obtain ps where ps: "parseEntries es = Inr ps"
    "list_all2 (\<lambda>e p. \<exists>u. identifier_url e = Some u \<and> paper_id p = last_segment u) es ps"
    by auto
  from Cons.prems obtain p u where p: "parseEntry e = Inr p" "identifier_url e = Some u" "paper_id p = last_segment u"
    using parseEntry_well_formed[of e] by auto
  show ?case using ps p by simp
qed

lemma parseEntry_categories:
  "parseEntry e = Inr p \<Longrightarrow> list_all (\<lambda>c. startsWith c ''cs.'') (categories p)"
  by (auto simp: parseEntry_def entry_categories_def split: sum.splits dest: filter_terms_prefix)

lemma parseEntries_categories:
  "parseEntries es = Inr ps \<Longrightarrow> p \<in> set ps \<Longrightarrow> list_all (\<lambda>c. startsWith c ''cs.'') (categories p)"
proof (induction es arbitrary: ps)
  case Nil
  then show ?case by simp
next
  case (Cons e es)
  then show ?case
    by (auto split: sum.splits dest: parseEntry_categories)
qed


lemma parseEntries_no_entries: "parseEntries [] = Inr []"
  by simp

lemma parseEntries_length: "parseEntries es = Inr ps \<Longrightarrow> length ps = length es"
  by (induction es arbitrary: ps) (auto split: sum.splits)

lemma parseEntry_raises:
  "None \<in> set (map (getAttribute ''term'') (querySelectorAll ''category'' e)) \<Longrightarrow>
   parseEntry e = Inl TypeError"
  by (simp add: parseEntry_def entry_categories_def filter_terms_none)

lemma list_loop_skips:
  "list_all (\<lambda>u. accepted_list (f u) = None) pre \<Longrightarrow>
   list_proxy_loop f (pre @ rest) =
     (fst (list_proxy_loop f rest), pre @ snd (list_proxy_loop f rest))"
  by (induction pre) (auto simp: accepted_list_def split: fetched.splits option.splits if_splits)

lemma list_loop_accepts:
  "accepted_list (f p) = Some b \<Longrightarrow> list_proxy_loop f (p # post) = (Some b, [p])"
  by (auto simp: accepted_list_def split: fetched.splits option.splits if_splits)

lemma detail_loop_requests:
  "snd (detail_proxy_loop f d ps) = snd (detail_proxy_loop f d' ps)"
  by (induction ps arbitrary: d d') (auto split: fetched.splits option.splits)

lemma detail_loop_accepts:
  "accepted_detail (f p) = Some b \<Longrightarrow> detail_proxy_loop f d (p # post) = (Some b, [p])"
  by (auto simp: accepted_detail_def accepted_list_def split: fetched.splits option.splits if_splits)

lemma detail_loop_skips:
  "list_all (\<lambda>u. accepted_detail (f u) = None) pre \<Longrightarrow>
   \<exists>d'. detail_proxy_loop f d (pre @ rest) =
     (fst (detail_proxy_loop f d' rest), pre @ snd (detail_proxy_loop f d' rest))"
proof (induction pre arbitrary: d)
  case Nil
  then show ?case by auto
next
  case (Cons u pre)
  then have tl: "\<And>d. \<exists>d'. detail_proxy_loop f d (pre @ rest) =
     (fst (detail_proxy_loop f d' rest), pre @ snd (detail_proxy_loop f d' rest))"
    by simp
  from Cons.prems have u: "accepted_detail (f u) = None" by simp
  show ?case
  proof (cases "f u")
    case Rejected
    from tl[of d] obtain d' where "detail_proxy_loop f d (pre @ rest) =
     (fst (detail_proxy_loop f d' rest), pre @ snd (detail_proxy_loop f d' rest))" by blast
    with Rejected show ?thesis by auto
  next
    case (Response st body)
    show ?thesis
    proof (cases "ok st \<and> body \<noteq> None")
      case True
      then obtain b where b: "body = Some b" by auto
      with u Response True have se: "signals_error b"
        by (auto simp: accepted_detail_def accepted_list_def split: if_splits)
      from tl[of "Some b"] obtain d' where "detail_proxy_loop f (Some b) (pre @ rest) =
         (fst (detail_proxy_loop f d' rest), pre @ snd (detail_proxy_loop f d' rest))" by blast
      with Response True b se show ?thesis by auto
    next
      case False
      from tl[of d] obtain d' where "detail_proxy_loop f d (pre @ rest) =
         (fst (detail_proxy_loop f d' rest), pre @ snd (detail_proxy_loop f d' rest))" by blast
      with Response False show ?thesis by (auto split: option.splits)
    qed
  qed
qed

lemma detail_loop_skips_requests:
  assumes "list_all (\<lambda>u. accepted_detail (f u) = None) pre"
  shows "snd (detail_proxy_loop f d (pre @ rest)) = pre @ snd (detail_proxy_loop f d rest)"
proof -
  from detail_loop_skips[OF assms] obtain d' where
    "detail_proxy_loop f d (pre @ rest) =
       (fst (detail_proxy_loop f d' rest), pre @ snd (detail_proxy_loop f d' rest))"
    by blast
  then have "snd (detail_proxy_loop f d (pre @ rest)) = pre @ snd (detail_proxy_loop f d' rest)"
    by simp
  then show ?thesis using detail_loop_requests[of f d' rest d] by simp
qed

lemma detail_loop_first_accepted:
  assumes "list_all (\<lambda>u. accepted_detail (f u) = None) pre" "accepted_detail (f p) = Some b"
  shows "detail_proxy_loop f d (pre @ p # post) = (Some b, pre @ [p])"
proof -
  from detail_loop_skips[OF assms(1)] obtain d' where
    "detail_proxy_loop f d (pre @ p # post) =
       (fst (detail_proxy_loop f d' (p # post)), pre @ snd (detail_proxy_loop f d' (p # post)))"
    by blast
  moreover from assms(2) have "detail_proxy_loop f d' (p # post) = (Some b, [p])"
    by (rule detail_loop_accepts)
  ultimately show ?thesis by simp
qed

lemma list_loop_none: "fst (list_proxy_loop f ps) = None \<Longrightarrow> snd (list_proxy_loop f ps) = ps"
  by (induction ps) (auto split: fetched.splits option.splits if_splits)



lemma set_insert_sorted: "set (insert_sorted cmp x ys) = insert x (set ys)"
  by (induction ys) auto

lemma newest_first_insert:
  assumes "date (published x) \<noteq> None" "list_all (\<lambda>p. date (published p) \<noteq> None) ys"
    and "newest_first date ys"
  shows "newest_first date (insert_sorted (compare_published date) x ys)"
  using assms
proof (induction ys)
  case Nil
  then show ?case by (simp add: newest_first_def)
next
  case (Cons y ys)
  from Cons.prems obtain tx ty where t: "date (published x) = Some tx" "date (published y) = Some ty"
    by auto
  have all: "\<forall>z \<in> set ys. \<exists>tz. date (published z) = Some tz"
    using Cons.prems(2) by (auto simp: list_all_iff)
  show ?case
  proof (cases "compare_published date x y \<le> 0")
    case True
    with t have le: "ty \<le> tx" by (simp add: compare_published_def)
    have "\<forall>z \<in> set ys. \<exists>tz. date (published z) = Some tz \<and> tz \<le> tx"
    proof
      fix z assume z: "z \<in> set ys"
      with Cons.prems(3) t obtain tz where "date (published z) = Some tz" "tz \<le> ty"
        by (auto simp: newest_first_def)
      with le show "\<exists>tz. date (published z) = Some tz \<and> tz \<le> tx" by auto
    qed
    with True t le Cons.prems(3) show ?thesis
      by (auto simp: newest_first_def)
  next
    case False
    with t have lt: "tx < ty" by (simp add: compare_published_def)
    from Cons have ih: "newest_first date (insert_sorted (compare_published date) x ys)"
      by (simp add: newest_first_def)
    with False t lt Cons.prems(3) show ?thesis
      by (auto simp: newest_first_def set_insert_sorted)
  qed
qed

lemma list_all_insert_sorted:
  "list_all P (insert_sorted cmp x ys) = (P x \<and> list_all P ys)"
  by (simp add: list_all_iff set_insert_sorted)

lemma js_sort_newest_first:
  "list_all (\<lambda>p. date (published p) \<noteq> None) xs \<Longrightarrow>
   newest_first date (js_sort (compare_published date) xs)
   \<and> list_all (\<lambda>p. date (published p) \<noteq> None) (js_sort (compare_published date) xs)"
proof (induction xs)
  case Nil
  then show ?case by (simp add: js_sort_def newest_first_def)
next
  case (Cons x xs)
  then show ?case
    by (simp add: js_sort_def newest_first_insert list_all_insert_sorted)
qed

lemma insert_sorted_insort_key:
  assumes "date (published x) \<noteq> None" "list_all (\<lambda>p. date (published p) \<noteq> None) ys"
  shows "insert_sorted (compare_published date) x ys =
         insort_key (\<lambda>p. - timestamp date p) x ys"
  using assms
  by (induction ys) (auto simp: compare_published_def timestamp_def)

lemma js_sort_stable:
  "list_all (\<lambda>p. date (published p) \<noteq> None) xs \<Longrightarrow>
   js_sort (compare_published date) xs = sort_key (\<lambda>p. - timestamp date p) xs"
proof (induction xs)
  case Nil
  then show ?case by (simp add: js_sort_def)
next
  case (Cons x xs)
  then have ih: "js_sort (compare_published date) xs = sort_key (\<lambda>p. - timestamp date p) xs"
    by simp
  from Cons.prems have "list_all (\<lambda>p. date (published p) \<noteq> None) (js_sort (compare_published date) xs)"
    using js_sort_newest_first[of date xs] by simp
  with Cons.prems have "insert_sorted (compare_published date) x (js_sort (compare_published date) xs) =
      insort_key (\<lambda>p. - timestamp date p) x (js_sort (compare_published date) xs)"
    by (simp add: insert_sorted_insort_key)
  with ih show ?case
    by (simp add: js_sort_def sort_key_def)
qed

text \<open>
  When no attempt gets a readable body with a success status, both pages turn to the
  sample data after requesting every intermediary. On the list page the sample papers
  are rendered and then replaced, in the same container, by the message of
  \<open>showError\<close>.
\<close>

lemma list_loop_all_failed:
  "list_all (\<lambda>u. accepted_list (f u) = None) ps \<Longrightarrow> list_proxy_loop f ps = (None, ps)"
  using list_loop_skips[of f ps "[]"] by simp

lemma detail_loop_all_failed:
  "list_all (\<lambda>u. accepted_list (f u) = None) ps \<Longrightarrow> detail_proxy_loop f d ps = (d, ps)"
  by (induction ps arbitrary: d)
     (auto simp: accepted_list_def split: fetched.splits option.splits if_splits)

lemma list_page_total_failure:
  assumes "list_all (\<lambda>u. accepted_list (fetch w u) = None)
             (proxies_for (encodeURIComponent w) list_apiUrl)"
  shows "loadPapersForToday w st =
           (use_sample_data w ''Using sample data: API proxies unavailable'' st,
            proxies_for (encodeURIComponent w) list_apiUrl)"
  unfolding loadPapersForToday_def list_loop_all_failed[OF assms]
  by simp

lemma detail_page_total_failure:
  assumes "list_all (\<lambda>u. accepted_list (fetch w u) = None)
             (proxies_for (encodeURIComponent w) (detail_apiUrl i))"
  shows "fetchPaperDetails w i =
           (displaySamplePaperDetails w i, proxies_for (encodeURIComponent w) (detail_apiUrl i))"
  unfolding fetchPaperDetails_def detail_loop_all_failed[OF assms]
  by simp

lemma renderPaperList_container:
  "container st = Some c \<Longrightarrow> \<exists>c'. container (snd (renderPaperList date ps st)) = Some c'"
  by (simp add: renderPaperList_def Let_def)

lemma use_sample_data_container:
  assumes "container st = Some c"
  shows "container (use_sample_data w msg st) = Some (ErrorMessage msg)"
proof -
  from assms have "container (st\<lparr>papersData := getSamplePapers w\<rparr>) = Some c"
    by simp
  from renderPaperList_container[OF this]
  obtain c' where "container (snd (renderPaperList (date_ms w) (getSamplePapers w)
                     (st\<lparr>papersData := getSamplePapers w\<rparr>))) = Some c'"
    by blast
  then show ?thesis
    by (simp add: use_sample_data_def showError_def Let_def)
qed

section \<open>Evaluation of the examples\<close>

lemmas example_defs =
  example_parser_def feed_text_def feed_doc_def empty_feed_text_def empty_feed_doc_def
  error_feed_text_def error_feed_doc_def untermed_text_def untermed_doc_def
  parsererror_doc_def

lemmas dom_defs =
  doc_querySelectorAll_def querySelectorAll_def querySelector_def descendants_def
  getAttribute_def querySelector_link_pdf_def field_text_def text_or_def

lemmas normalizer_defs =
  entry_id_def entry_categories_def entry_authors_def entry_pdfLink_def parseEntry_def
  parseArxivResponse_def startsWith_def trim_def is_space_def

lemma feed_entries_well_formed:
  "list_all well_formed_entry (doc_querySelectorAll ''entry'' (example_parser feed_text))"
  by (simp add: example_defs dom_defs well_formed_entry_def identifier_url_def)

lemma feed_records:
  "parseArxivResponse example_parser feed_text =
     Inr [feed_paper_1, feed_paper_2]"
  by (simp add: example_defs dom_defs normalizer_defs feed_paper_1_def feed_paper_2_def)

lemma answers_list_proxies: "map (answers r1 r2 r3) example_list_proxies = [r1, r2, r3]"
  by (simp add: example_list_proxies_def proxies_for_def answers_def startsWith_def)

lemma answers_detail_proxies: "map (answers r1 r2 r3) example_detail_proxies = [r1, r2, r3]"
  by (simp add: example_detail_proxies_def proxies_for_def answers_def startsWith_def)

lemma example_error_words:
  "\<not> signals_error feed_text" "\<not> signals_error not_xml_text" "signals_error error_feed_text"
  "\<not> signals_error []"
  by (simp_all add: signals_error_def feed_text_def not_xml_text_def error_feed_text_def
        startsWith_def)

lemma example_validity:
  "\<not> structurally_valid example_parser not_xml_text"
  "structurally_valid example_parser feed_text"
  by (simp_all add: structurally_valid_def example_defs not_xml_text_def dom_defs)

lemmas loop_eval =
  example_list_proxies_def example_detail_proxies_def proxies_for_def answers_def
  startsWith_def ok_def

lemma example_world_fields:
  "DOMParser (example_world r1 r2 r3) = example_parser"
  "encodeURIComponent (example_world r1 r2 r3) = percent_encode"
  "date_ms (example_world r1 r2 r3) = example_date_ms"
  "toISOString (example_world r1 r2 r3) = example_toISOString"
  "toLocaleDateString (example_world r1 r2 r3) = example_toLocaleDateString"
  "fullYear (example_world r1 r2 r3) = example_fullYear"
  "message (example_world r1 r2 r3) = example_message"
  "fetch (example_world r1 r2 r3) = answers r1 r2 r3"
  "sample_file (example_world r1 r2 r3) = Response 404 None"
  by (simp_all add: example_world_def)

lemma example_sample_fallback:
  "getSamplePapers (example_world r1 r2 r3) = hardcoded_sample_list"
  "displaySamplePaperDetails (example_world r1 r2 r3) ''abc'' =
     Inr \<lparr>sample_note = True, shown = generic_sample_paper,
          cite = \<lparr>c_id = ''abc'', c_title = ''Sample Paper'', c_authors = [''Sample Author''],
                  c_published = ''2024''\<rparr>\<rparr>"
  by (simp_all add: getSamplePapers_def displaySamplePaperDetails_def choose_sample_paper_def
        hardcoded_lookup_def get_property_def hardcodedSamplePapers_def
        object_prototype_names_def example_world_fields ok_def generic_sample_paper_def)

lemma invalid_first_loops:
  "list_proxy_loop (fetch world_invalid_first) example_list_proxies =
     (Some not_xml_text, [hd example_list_proxies])"
  "detail_proxy_loop (fetch world_invalid_first) None example_detail_proxies =
     (Some not_xml_text, [hd example_detail_proxies])"
  by (simp_all add: world_invalid_first_def example_world_fields loop_eval example_error_words)

lemma render_single:
  "renderPaperList date [p] \<lparr>currentCategory = ''all'', papersData = ps, container = Some c\<rparr> =
     ([p], \<lparr>currentCategory = ''all'', papersData = ps, container = Some (PaperList [p])\<rparr>)"
  by (simp add: renderPaperList_def js_sort_def Let_def)

lemma render_hardcoded:
  "renderPaperList date hardcoded_sample_list
     \<lparr>currentCategory = ''all'', papersData = hardcoded_sample_list, container = Some Initial\<rparr> =
   (hardcoded_sample_list,
    \<lparr>currentCategory = ''all'', papersData = hardcoded_sample_list,
      container = Some (PaperList hardcoded_sample_list)\<rparr>)"
proof -
  have "hardcoded_sample_list = [hd hardcoded_sample_list]"
    by (simp add: hardcoded_sample_list_def)
  then show ?thesis
    using render_single[of date "hd hardcoded_sample_list" hardcoded_sample_list Initial]
    by simp
qed

lemma invalid_first_page:
  "loadPapersForToday world_invalid_first start_page =
     (\<lparr>currentCategory = ''all'', papersData = [], container = Some NoPapers\<rparr>,
      [hd example_list_proxies])"
proof -
  have loop: "list_proxy_loop (fetch world_invalid_first)
                (proxies_for (encodeURIComponent world_invalid_first) list_apiUrl) =
              (Some not_xml_text, [hd example_list_proxies])"
    by (simp add: world_invalid_first_def example_world_fields loop_eval)
  have parse: "parseArxivResponse (DOMParser world_invalid_first) not_xml_text = Inr []"
    by (simp add: world_invalid_first_def example_world_fields example_defs not_xml_text_def dom_defs normalizer_defs)
  have "not_xml_text \<noteq> []"
    by (simp add: not_xml_text_def)
  then show ?thesis
    unfolding loadPapersForToday_def loop
    by (simp add: parse renderPaperList_def start_page_def)
qed

lemma passed_examples:
  "list_all (\<lambda>u. accepted_list (fetch world_third_serves u) = None) (take 2 example_list_proxies)"
  "list_all (\<lambda>u. accepted_detail (fetch world_error_then_feed u) = None) (take 2 example_detail_proxies)"
  "list_proxy_loop (fetch world_third_serves) (drop 2 example_list_proxies) = (Some feed_text, drop 2 example_list_proxies)"
  "snd (detail_proxy_loop (fetch world_error_then_feed) None (drop 2 example_detail_proxies)) = drop 2 example_detail_proxies"
  by (simp_all add: world_third_serves_def world_error_then_feed_def example_world_fields loop_eval accepted_list_def accepted_detail_def example_error_words)

lemma error_feed_details:
  "parsePaperDetails (example_world r1 r2 r3) ''abc'' error_feed_text =
     Inr \<lparr>sample_note = False,
          shown = \<lparr>d_title = ''Error'', d_authors = [], d_published = ''Invalid Date'',
                   d_summary = ''incorrect id format for abc'',
                   d_pdfLink = ''https://arxiv.org/pdf/abc.pdf''\<rparr>,
          cite = \<lparr>c_id = ''abc'', c_title = ''Error'', c_authors = [],
                  c_published = ''Unknown date''\<rparr>\<rparr>"
  by (simp add: parsePaperDetails_def example_world_fields detail_pdfLink_def
        example_toLocaleDateString_def example_defs dom_defs)

lemma third_serves_list:
  "list_all (\<lambda>u. accepted_list (fetch world_third_serves u) = None) (take 2 example_list_proxies)"
  "accepted_list (fetch world_third_serves (example_list_proxies ! 2)) = Some feed_text"
  "list_all (\<lambda>u. accepted_detail (fetch world_third_serves u) = None) (take 2 example_list_proxies)"
  "accepted_detail (fetch world_third_serves (example_list_proxies ! 2)) = Some feed_text"
  "take 2 example_list_proxies @ [example_list_proxies ! 2] = example_list_proxies"
  by (simp_all add: world_third_serves_def example_world_fields loop_eval accepted_list_def accepted_detail_def example_error_words)

lemma sample_without_default_fields:
  "sample_file world_sample_without_default = Response 200 (Some example_sample_data)"
  by (simp add: world_sample_without_default_def)

lemmas sample_defs =
  displaySamplePaperDetails_def choose_sample_paper_def hardcoded_lookup_def get_property_def
  hardcodedSamplePapers_def object_prototype_names_def of_sample_def






section \<open>The proxy loops\<close>

text \<open>
  Claim C1, as stated, fails: neither loop looks at the structure of a body. In
  \<open>world_invalid_first\<close> the first intermediary with a structurally valid body is the
  second one, yet both loops end with the body of the first, and the list page then
  shows that it found no papers.
\<close>

theorem first_valid_body_not_returned:
  "\<not> structurally_valid example_parser not_xml_text
   \<and> structurally_valid example_parser feed_text
   \<and> map (fetch world_invalid_first) example_list_proxies =
       [Response 200 (Some not_xml_text), Response 200 (Some feed_text), Rejected]
   \<and> list_proxy_loop (fetch world_invalid_first) example_list_proxies =
       (Some not_xml_text, [hd example_list_proxies])
   \<and> map (fetch world_invalid_first) example_detail_proxies =
       [Response 200 (Some not_xml_text), Response 200 (Some feed_text), Rejected]
   \<and> detail_proxy_loop (fetch world_invalid_first) None example_detail_proxies =
       (Some not_xml_text, [hd example_detail_proxies])
   \<and> loadPapersForToday world_invalid_first start_page =
       (\<lparr>currentCategory = ''all'', papersData = [], container = Some NoPapers\<rparr>,
        [hd example_list_proxies])"
  by (simp add: example_validity invalid_first_loops invalid_first_page)
     (simp add: world_invalid_first_def example_world_fields answers_list_proxies
        answers_detail_proxies)

text \<open>
  Claim C1, amended. If intermediary \<open>k\<close> is the first whose attempt gives a response
  with a success status and a readable body (on the detail page: a body that moreover
  contains neither \<open>Error\<close> nor \<open>error\<close>), the loop ends with exactly that body as
  \<open>data\<close> and has requested the first \<open>k\<close> intermediaries, each once and in order,
  and none after them. Here \<open>pre\<close> are the intermediaries before the \<open>k\<close>-th, \<open>p\<close>
  is the \<open>k\<close>-th and \<open>post\<close> are those after it.
\<close>

theorem first_accepted_body_ends_loop:
  "(list_all (\<lambda>u. accepted_list (f u) = None) pre \<and> accepted_list (f p) = Some b
      \<longrightarrow> list_proxy_loop f (pre @ p # post) = (Some b, pre @ [p]))
   \<and> (list_all (\<lambda>u. accepted_detail (f u) = None) pre \<and> accepted_detail (f p) = Some b
      \<longrightarrow> detail_proxy_loop f d (pre @ p # post) = (Some b, pre @ [p]))"
proof (intro conjI impI)
  assume a: "list_all (\<lambda>u. accepted_list (f u) = None) pre \<and> accepted_list (f p) = Some b"
  then have "list_proxy_loop f (pre @ p # post) =
      (fst (list_proxy_loop f (p # post)), pre @ snd (list_proxy_loop f (p # post)))"
    by (simp add: list_loop_skips)
  moreover from a have "accepted_list (f p) = Some b"
    by simp
  then have "list_proxy_loop f (p # post) = (Some b, [p])"
    by (rule list_loop_accepts)
  ultimately show "list_proxy_loop f (pre @ p # post) = (Some b, pre @ [p])"
    by simp
next
  assume "list_all (\<lambda>u. accepted_detail (f u) = None) pre \<and> accepted_detail (f p) = Some b"
  then show "detail_proxy_loop f d (pre @ p # post) = (Some b, pre @ [p])"
    by (simp add: detail_loop_first_accepted)
qed

theorem first_accepted_body_ends_loop_witness:
  "list_all (\<lambda>u. accepted_list (fetch world_third_serves u) = None) (take 2 example_list_proxies)
   \<and> accepted_list (fetch world_third_serves (example_list_proxies ! 2)) = Some feed_text
   \<and> list_proxy_loop (fetch world_third_serves) example_list_proxies =
       (Some feed_text, example_list_proxies)
   \<and> list_all (\<lambda>u. accepted_detail (fetch world_third_serves u) = None) (take 2 example_list_proxies)
   \<and> accepted_detail (fetch world_third_serves (example_list_proxies ! 2)) = Some feed_text
   \<and> detail_proxy_loop (fetch world_third_serves) None example_list_proxies =
       (Some feed_text, example_list_proxies)"
  using first_accepted_body_ends_loop[of "fetch world_third_serves" "take 2 example_list_proxies"
          "example_list_proxies ! 2" feed_text "[]" None]
  by (simp add: third_serves_list)

text \<open>
  Claim C2, as stated, fails: an empty body with a success status is no failure of its
  attempt. In \<open>world_empty_first\<close> the loop of the list page ends at intermediary 1,
  intermediary 2, which would have served the feed, is never requested, and the page
  turns to the sample data.
\<close>

theorem empty_body_ends_list_loop:
  "map (fetch world_empty_first) example_list_proxies =
     [Response 200 (Some []), Response 200 (Some feed_text), Rejected]
   \<and> structurally_valid example_parser feed_text
   \<and> loadPapersForToday world_empty_first start_page =
       (\<lparr>currentCategory = ''all'', papersData = hardcoded_sample_list,
         container = Some (ErrorMessage ''Using sample data: API proxies unavailable'')\<rparr>,
        [hd example_list_proxies])"
proof -
  have loop: "list_proxy_loop (fetch world_empty_first)
                (proxies_for (encodeURIComponent world_empty_first) list_apiUrl) =
              (Some [], [hd example_list_proxies])"
    by (simp add: world_empty_first_def example_world_fields loop_eval)
  have sample: "getSamplePapers world_empty_first = hardcoded_sample_list"
    by (simp add: world_empty_first_def example_sample_fallback)
  have "loadPapersForToday world_empty_first start_page =
       (\<lparr>currentCategory = ''all'', papersData = hardcoded_sample_list,
         container = Some (ErrorMessage ''Using sample data: API proxies unavailable'')\<rparr>,
        [hd example_list_proxies])"
    unfolding loadPapersForToday_def loop use_sample_data_def sample
    by (simp add: start_page_def render_hardcoded showError_def)
  then show ?thesis
    by (simp add: example_validity world_empty_first_def example_world_fields answers_list_proxies)
qed

text \<open>
  Claim C2, amended. An attempt whose request is rejected, whose status is not a
  success status or whose body cannot be read (on the detail page also one whose body
  contains \<open>Error\<close> or \<open>error\<close>) is the failure of that attempt only, and the loop
  goes on to the next intermediary: after a run \<open>pre\<close> of such attempts every
  intermediary of the run has been requested once, in order, and the loop continues
  with the remaining ones as a loop started there does.
\<close>

theorem failed_attempts_are_passed:
  "(list_all (\<lambda>u. accepted_list (f u) = None) pre
      \<longrightarrow> list_proxy_loop f (pre @ rest) =
            (fst (list_proxy_loop f rest), pre @ snd (list_proxy_loop f rest)))
   \<and> (list_all (\<lambda>u. accepted_detail (g u) = None) pre'
      \<longrightarrow> snd (detail_proxy_loop g d (pre' @ rest')) = pre' @ snd (detail_proxy_loop g d rest'))"
  by (simp add: list_loop_skips detail_loop_skips_requests)

theorem failed_attempts_are_passed_witness:
  "list_all (\<lambda>u. accepted_list (fetch world_third_serves u) = None) (take 2 example_list_proxies)
   \<and> list_proxy_loop (fetch world_third_serves) example_list_proxies =
       (Some feed_text, example_list_proxies)
   \<and> list_all (\<lambda>u. accepted_detail (fetch world_error_then_feed u) = None)
        (take 2 example_detail_proxies)
   \<and> map (fetch world_error_then_feed) example_detail_proxies =
       [Response 200 (Some error_feed_text), Response 503 None, Response 200 (Some feed_text)]
   \<and> snd (detail_proxy_loop (fetch world_error_then_feed) None example_detail_proxies) =
       example_detail_proxies"
  using failed_attempts_are_passed[of "fetch world_third_serves" "take 2 example_list_proxies"
          "drop 2 example_list_proxies" "fetch world_error_then_feed"
          "take 2 example_detail_proxies" None "drop 2 example_detail_proxies"]
  by (simp add: passed_examples)
     (simp add: world_error_then_feed_def example_world_fields answers_detail_proxies)

text \<open>
  Claim C3. When every attempt fails by rejection, status or unreadable body, both
  pages do turn to the fallback data (\<open>list_page_total_failure\<close>,
  \<open>detail_page_total_failure\<close>). But the loop of the detail page assigns \<open>data\<close>
  before it tests the body for the words \<open>Error\<close> and \<open>error\<close>, so after a last attempt
  that failed this test \<open>data\<close> still holds the refused body and \<open>!data\<close> is false. In
  \<open>world_error_feeds\<close> every attempt fails, and the page shows the error entry of the
  search API as if it were the paper, where the fallback provider has the generic
  sample paper.
\<close>

theorem error_feeds_are_displayed:
  "list_all (\<lambda>u. accepted_detail (fetch world_error_feeds u) = None) example_detail_proxies
   \<and> fetchPaperDetails world_error_feeds ''abc'' =
       (Inr \<lparr>sample_note = False,
             shown = \<lparr>d_title = ''Error'', d_authors = [], d_published = ''Invalid Date'',
                      d_summary = ''incorrect id format for abc'',
                      d_pdfLink = ''https://arxiv.org/pdf/abc.pdf''\<rparr>,
             cite = \<lparr>c_id = ''abc'', c_title = ''Error'', c_authors = [],
                     c_published = ''Unknown date''\<rparr>\<rparr>,
        example_detail_proxies)
   \<and> displaySamplePaperDetails world_error_feeds ''abc'' =
       Inr \<lparr>sample_note = True, shown = generic_sample_paper,
            cite = \<lparr>c_id = ''abc'', c_title = ''Sample Paper'', c_authors = [''Sample Author''],
                    c_published = ''2024''\<rparr>\<rparr>"
proof (intro conjI)
  show "list_all (\<lambda>u. accepted_detail (fetch world_error_feeds u) = None) example_detail_proxies"
    by (simp add: world_error_feeds_def example_world_fields loop_eval accepted_list_def accepted_detail_def
          example_error_words)
  have loop: "detail_proxy_loop (fetch world_error_feeds) None
                (proxies_for (encodeURIComponent world_error_feeds) (detail_apiUrl ''abc'')) =
              (Some error_feed_text, example_detail_proxies)"
    by (simp add: world_error_feeds_def example_world_fields loop_eval example_error_words detail_apiUrl_def)
  have parse: "parsePaperDetails world_error_feeds ''abc'' error_feed_text =
     Inr \<lparr>sample_note = False,
          shown = \<lparr>d_title = ''Error'', d_authors = [], d_published = ''Invalid Date'',
                   d_summary = ''incorrect id format for abc'',
                   d_pdfLink = ''https://arxiv.org/pdf/abc.pdf''\<rparr>,
          cite = \<lparr>c_id = ''abc'', c_title = ''Error'', c_authors = [],
                  c_published = ''Unknown date''\<rparr>\<rparr>"
    by (simp add: world_error_feeds_def error_feed_details)
  have "error_feed_text \<noteq> []"
    by (simp add: error_feed_text_def)
  then show "fetchPaperDetails world_error_feeds ''abc'' =
       (Inr \<lparr>sample_note = False,
             shown = \<lparr>d_title = ''Error'', d_authors = [], d_published = ''Invalid Date'',
                      d_summary = ''incorrect id format for abc'',
                      d_pdfLink = ''https://arxiv.org/pdf/abc.pdf''\<rparr>,
             cite = \<lparr>c_id = ''abc'', c_title = ''Error'', c_authors = [],
                     c_published = ''Unknown date''\<rparr>\<rparr>,
        example_detail_proxies)"
    unfolding fetchPaperDetails_def loop
    by (simp add: parse)
  show "displaySamplePaperDetails world_error_feeds ''abc'' =
       Inr \<lparr>sample_note = True, shown = generic_sample_paper,
            cite = \<lparr>c_id = ''abc'', c_title = ''Sample Paper'', c_authors = [''Sample Author''],
                    c_published = ''2024''\<rparr>\<rparr>"
    by (simp add: world_error_feeds_def example_sample_fallback)
qed

section \<open>The response normalizer\<close>

text \<open>
  Claim C4. For a document all of whose entries are well formed, \<open>parseArxivResponse\<close>
  returns one record per entry, in the order of the entries, and the \<open>id\<close> of each
  record is the final path segment of the identifier URL of its entry.
\<close>

theorem normalizer_one_record_per_entry:
  assumes "list_all well_formed_entry (doc_querySelectorAll ''entry'' (parser xmlText))"
  shows "\<exists>papers. parseArxivResponse parser xmlText = Inr papers
           \<and> length papers = length (doc_querySelectorAll ''entry'' (parser xmlText))
           \<and> list_all2 (\<lambda>e p. \<exists>u. identifier_url e = Some u \<and> paper_id p = last_segment u)
                (doc_querySelectorAll ''entry'' (parser xmlText)) papers"
proof -
  from parseEntries_well_formed[OF assms] obtain ps where
    ps: "parseEntries (doc_querySelectorAll ''entry'' (parser xmlText)) = Inr ps"
    and ids: "list_all2 (\<lambda>e p. \<exists>u. identifier_url e = Some u \<and> paper_id p = last_segment u)
                (doc_querySelectorAll ''entry'' (parser xmlText)) ps"
    by blast
  from ps have "length ps = length (doc_querySelectorAll ''entry'' (parser xmlText))"
    by (rule parseEntries_length)
  with ps ids show ?thesis
    by (auto simp: parseArxivResponse_def)
qed

theorem normalizer_one_record_per_entry_witness:
  "list_all well_formed_entry (doc_querySelectorAll ''entry'' (example_parser feed_text))
   \<and> (\<exists>papers. parseArxivResponse example_parser feed_text = Inr papers
         \<and> length papers = 2
         \<and> map paper_id papers = [''2401.00001v1'', ''2401.00002v1''])"
proof -
  have n: "length (doc_querySelectorAll ''entry'' (example_parser feed_text)) = 2"
    by (simp add: example_defs dom_defs)
  from normalizer_one_record_per_entry[of example_parser feed_text] feed_entries_well_formed
  obtain papers where "parseArxivResponse example_parser feed_text = Inr papers"
    and "length papers = length (doc_querySelectorAll ''entry'' (example_parser feed_text))"
    by blast
  with n feed_records feed_entries_well_formed show ?thesis
    by (simp add: feed_paper_1_def feed_paper_2_def)
qed

text \<open>
  Claim C5. The claim holds for every missing child element, but not for a category tag
  that lacks its \<open>term\<close> attribute: \<open>getAttribute\<close> then gives \<open>null\<close>, and
  \<open>term.startsWith\<close> raises a TypeError. The entry of \<open>untermed_text\<close> has one category
  tag, outside the recognized namespace since it has no term at all, and
  \<open>parseArxivResponse\<close> raises instead of returning a record without categories.
\<close>

theorem normalizer_raises_without_term:
  "doc_querySelectorAll ''entry'' (example_parser untermed_text) =
     [Element ''entry'' []
        [Element ''id'' [] [Text ''http://arxiv.org/abs/2401.00003v1''],
         Element ''category'' [(''scheme'', ''http://arxiv.org/schemas/atom'')] []]]
   \<and> parseArxivResponse example_parser untermed_text = Inl TypeError"
  by (simp add: example_defs dom_defs normalizer_defs)

text \<open>
  Claim C7, as stated, fails: the filter keeps every term that starts with \<open>cs.\<close>,
  whether or not \<open>CATEGORY_MAP\<close> has it as a key. The term \<open>cs.NA\<close> is kept and is no
  key of the table.
\<close>

theorem categories_not_all_keys:
  "map_sum (\<lambda>e. e) (map categories) (parseArxivResponse example_parser feed_text) =
     Inr [[''cs.NA''], [''cs.LG'']]
   \<and> map_of CATEGORY_MAP ''cs.NA'' = None"
  by (simp add: feed_records CATEGORY_MAP_def feed_paper_1_def feed_paper_2_def)

text \<open>
  Claim C7, amended. Every element of the categories of every record that
  \<open>parseArxivResponse\<close> returns starts with the prefix \<open>cs.\<close> of the subject-tag
  namespace.
\<close>

theorem categories_start_with_prefix:
  assumes "parseArxivResponse parser xmlText = Inr papers"
    and "p \<in> set papers"
    and "c \<in> set (categories p)"
  shows "startsWith c ''cs.''"
proof -
  from assms(1,2) have "list_all (\<lambda>c. startsWith c ''cs.'') (categories p)"
    unfolding parseArxivResponse_def by (rule parseEntries_categories)
  with assms(3) show ?thesis
    by (simp add: list_all_iff)
qed

theorem categories_start_with_prefix_witness:
  "parseArxivResponse example_parser feed_text =
     Inr [feed_paper_1, feed_paper_2]
   \<and> startsWith ''cs.NA'' ''cs.''"
proof -
  have "startsWith ''cs.NA'' ''cs.''"
    by (rule categories_start_with_prefix[OF feed_records, of feed_paper_1])
       (simp_all add: feed_paper_1_def)
  with feed_records show ?thesis
    by simp
qed




section \<open>The fallback data of the detail page\<close>

text \<open>
  Claim C8, as stated, fails. For an id that is in neither the sample file nor the
  hard-coded records, and a sample file without default record,
  \<open>displaySamplePaperDetails\<close> shows the generic record on the right of \<open>||\<close>, not the
  first hard-coded record \<open>2401.12345\<close>. For an id that names a property of
  \<open>Object.prototype\<close> it raises a TypeError.
\<close>

theorem unknown_id_gets_generic_record:
  "loaded_sample_data world_sample_without_default = Some example_sample_data
   \<and> map_of (samplePapers example_sample_data) ''9999.99999'' = None
   \<and> defaultSamplePaper example_sample_data = None
   \<and> displaySamplePaperDetails world_sample_without_default ''9999.99999'' =
       Inr \<lparr>sample_note = True, shown = generic_sample_paper,
            cite = \<lparr>c_id = ''9999.99999'', c_title = ''Sample Paper'',
                    c_authors = [''Sample Author''], c_published = ''2024''\<rparr>\<rparr>
   \<and> fst (hd hardcodedSamplePapers) = ''2401.12345''
   \<and> generic_sample_paper \<noteq> snd (hd hardcodedSamplePapers)
   \<and> displaySamplePaperDetails world_sample_without_default ''constructor'' = Inl TypeError"
  by (simp add: sample_defs sample_without_default_fields loaded_sample_data_def ok_def
        example_sample_data_def generic_sample_paper_def)

text \<open>
  Claim C8, amended. For every id that does not name a property of
  \<open>Object.prototype\<close>, \<open>displaySamplePaperDetails\<close> shows the record of the sample file
  with that id if the file could be read and has one, else the default record of the
  file if it has one, else the hard-coded record with that id, else the generic
  hard-coded record; it never ends in an error.
\<close>

theorem sample_lookup_by_id:
  assumes "i \<notin> set object_prototype_names"
  shows "displaySamplePaperDetails w i =
           Inr \<lparr>sample_note = True,
                shown = lookup_by_id (loaded_sample_data w) i,
                cite = \<lparr>c_id = i,
                        c_title = d_title (lookup_by_id (loaded_sample_data w) i),
                        c_authors = d_authors (lookup_by_id (loaded_sample_data w) i),
                        c_published = d_published (lookup_by_id (loaded_sample_data w) i)\<rparr>\<rparr>"
proof -
  have "choose_sample_paper w i = Inr (lookup_by_id (loaded_sample_data w) i)"
    using assms
    by (auto simp: choose_sample_paper_def hardcoded_lookup_def get_property_def
          lookup_by_id_def loaded_sample_data_def
          split: fetched.splits option.splits)
  then show ?thesis
    by (simp add: displaySamplePaperDetails_def)
qed

theorem sample_lookup_by_id_witness:
  "''2401.12346'' \<notin> set object_prototype_names
   \<and> displaySamplePaperDetails world_sample_without_default ''2401.12346'' =
       Inr \<lparr>sample_note = True,
            shown = \<lparr>d_title = ''Sample Paper: Computer Vision Applications'',
                     d_authors = [''Alice Johnson''],
                     d_published = ''January 1, 2024'',
                     d_summary = ''Exploring recent developments in computer vision and image recognition. This paper discusses novel approaches to object detection and image classification.'',
                     d_pdfLink = ''https://arxiv.org/pdf/2401.12346.pdf''\<rparr>,
            cite = \<lparr>c_id = ''2401.12346'',
                    c_title = ''Sample Paper: Computer Vision Applications'',
                    c_authors = [''Alice Johnson''],
                    c_published = ''January 1, 2024''\<rparr>\<rparr>"
proof -
  have h: "''2401.12346'' \<notin> set object_prototype_names"
    by (simp add: object_prototype_names_def)
  have l: "lookup_by_id (loaded_sample_data world_sample_without_default) ''2401.12346'' =
       \<lparr>d_title = ''Sample Paper: Computer Vision Applications'',
                     d_authors = [''Alice Johnson''],
                     d_published = ''January 1, 2024'',
                     d_summary = ''Exploring recent developments in computer vision and image recognition. This paper discusses novel approaches to object detection and image classification.'',
                     d_pdfLink = ''https://arxiv.org/pdf/2401.12346.pdf''\<rparr>"
    by (simp add: lookup_by_id_def loaded_sample_data_def sample_without_default_fields ok_def
          example_sample_data_def hardcodedSamplePapers_def)
  from sample_lookup_by_id[OF h, of world_sample_without_default] h l show ?thesis
    by simp
qed

section \<open>The citation generators\<close>

text \<open>
  Claim C9. \<open>generateBibtex\<close> leaves its arguments alone, but
  \<open>generateStandardCitation\<close> removes the last element of the array \<open>authors\<close> it is
  given whenever there is more than one author. The buttons share that array, so a
  second click on the citation button copies a citation without the last author.
\<close>

theorem citation_drops_last_author:
  "generateStandardCitation year t [''John Doe'', ''Jane Smith''] p =
     (''John Doe and Jane Smith ('' @ year p @ ''). '' @ t @ ''. arXiv preprint.'', [''John Doe''])
   \<and> fst (click_citation example_fullYear sample_citation_args) =
       ''John Doe and Jane Smith (2024). Sample Paper: Advances in Machine Learning. arXiv preprint.''
   \<and> c_authors (snd (click_citation example_fullYear sample_citation_args)) = [''John Doe'']
   \<and> fst (click_citation example_fullYear (snd (click_citation example_fullYear sample_citation_args))) =
       ''John Doe (2024). Sample Paper: Advances in Machine Learning. arXiv preprint.''"
  by (simp add: generateStandardCitation_def click_citation_def sample_citation_args_def
        example_fullYear_def)

text \<open>The BibTeX entry for the two sample authors.\<close>

lemma bibtex_sample_authors:
  "generateBibtex example_fullYear ''2401.12345'' ''T'' [''John Doe'', ''Jane Smith''] ''2024'' =
     ''@article{2401.12345,'' @ nl @ ''  title={T},'' @ nl @
     ''  author={Doe, John and Smith, Jane},'' @ nl @
     ''  journal={arXiv preprint arXiv:2401.12345},'' @ nl @ ''  year={2024}'' @ nl @ ''}''"
  by (simp add: generateBibtex_def bibtex_author_def example_fullYear_def)

section \<open>The list view\<close>




end
